theory Spec2Isabelle
  imports Main "HOL-Library.Char_ord" "HOL-Library.List_Lexorder" "HOL-Library.Multiset"
begin

section \<open>Announcements endpoints of the High School Management System API\<close>

text \<open>
  A shallow embedding of \<^verbatim>\<open>src/backend/routers/announcements.py\<close>.

  \<^item> Python \<^verbatim>\<open>str\<close> is \<open>string\<close>; the order on strings is the lexicographic order on
    characters (\<open>Char_ord\<close>, \<open>List_Lexorder\<close>), which is what Python's \<^verbatim>\<open><=\<close> on
    \<^verbatim>\<open>str\<close> and the store's \<^verbatim>\<open>$gte\<close> on strings compute.
  \<^item> A stored announcement is a pair of its \<^verbatim>\<open>_id\<close> and a dictionary of its other
    fields, all of them strings. A document handed back to the caller is a dictionary
    whose \<^verbatim>\<open>"_id"\<close> entry is the identifier rendered by \<^verbatim>\<open>str\<close>.
  \<^item> The two module-level collections are the fields of the record \<open>database\<close>,
    passed to every endpoint and returned by every endpoint that writes.
  \<^item> \<^verbatim>\<open>raise\<close> is a result \<open>Inl e\<close>.
  \<^item> The clock (\<^verbatim>\<open>datetime.now()\<close>), the identifier the driver generates on insert,
    and the two operations of \<^verbatim>\<open>bson.ObjectId\<close> the module uses (the constructor
    from a string, which may fail, and \<^verbatim>\<open>str\<close>) are arguments of the endpoints.
\<close>

subsection \<open>Documents, collections, errors\<close>

type_synonym fields = "string \<rightharpoonup> string"

type_synonym 'k document = "'k \<times> fields"

type_synonym json = "string \<rightharpoonup> string"

record 'oid database =
  announcements_collection :: "'oid document list"
  teachers_collection :: "string document list"

datatype error =
    HTTPException nat string
  | DuplicateKeyError
  | TypeError

text \<open>The four user-visible errors of the module, as it raises them.\<close>

definition Unauthorized :: error where
  "Unauthorized = HTTPException 401 ''Authentication required''"

definition InvalidId :: error where
  "InvalidId = HTTPException 400 ''Invalid announcement ID''"

definition InvalidDate :: "string \<Rightarrow> error" where
  "InvalidDate field = HTTPException 400 (''Invalid '' @ field @ '' format. Use YYYY-MM-DD'')"

definition NotFound :: error where
  "NotFound = HTTPException 404 ''Announcement not found''"

subsection \<open>The collection operations the module calls\<close>

text \<open>\<^verbatim>\<open>collection.find_one({"_id": k})\<close>: the first document with that key.\<close>

definition find_one :: "'k \<Rightarrow> 'k document list \<Rightarrow> 'k document option" where
  "find_one k c = List.find (\<lambda>d. fst d = k) c"

text \<open>
  \<^verbatim>\<open>collection.update_one({"_id": k}, u)\<close>: applies \<open>u\<close> to the fields of the first
  document with that key; returns \<^verbatim>\<open>matched_count\<close> and the collection.
\<close>

fun update_one :: "'k \<Rightarrow> (fields \<Rightarrow> fields) \<Rightarrow> 'k document list \<Rightarrow> nat \<times> 'k document list" where
  "update_one k u [] = (0, [])"
| "update_one k u (d # ds) =
     (if fst d = k then (1, (fst d, u (snd d)) # ds)
      else (fst (update_one k u ds), d # snd (update_one k u ds)))"

text \<open>The update operators \<^verbatim>\<open>{"$unset": {name: ""}}\<close> and \<^verbatim>\<open>{"$set": doc}\<close>.\<close>

definition unset_field :: "string \<Rightarrow> fields \<Rightarrow> fields" where
  "unset_field name f = f(name := None)"

definition set_fields :: "fields \<Rightarrow> fields \<Rightarrow> fields" where
  "set_fields doc f = f ++ doc"

text \<open>
  \<^verbatim>\<open>collection.delete_one({"_id": k})\<close>: removes the first document with that key;
  returns \<^verbatim>\<open>deleted_count\<close> and the collection.
\<close>

fun delete_one :: "'k \<Rightarrow> 'k document list \<Rightarrow> nat \<times> 'k document list" where
  "delete_one k [] = (0, [])"
| "delete_one k (d # ds) =
     (if fst d = k then (1, ds)
      else (fst (delete_one k ds), d # snd (delete_one k ds)))"

text \<open>
  \<^verbatim>\<open>collection.insert_one(doc)\<close> with the identifier the driver generated: the
  store refuses a key it already holds.
\<close>

definition insert_one :: "'k document \<Rightarrow> 'k document list \<Rightarrow> error + 'k document list" where
  "insert_one d c = (if fst d \<in> fst ` set c then Inl DuplicateKeyError else Inr (c @ [d]))"

text \<open>\<^verbatim>\<open>announcement["_id"] = str(announcement["_id"])\<close>\<close>

definition str_id :: "('oid \<Rightarrow> string) \<Rightarrow> 'oid document \<Rightarrow> json" where
  "str_id str d = (snd d)(''_id'' \<mapsto> str (fst d))"

text \<open>Truth value of an \<^verbatim>\<open>Optional[str]\<close>: \<^verbatim>\<open>None\<close> and \<^verbatim>\<open>""\<close> are false.\<close>

fun truthy :: "string option \<Rightarrow> bool" where
  "truthy None = False"
| "truthy (Some s) = (s \<noteq> [])"

subsection \<open>\<^verbatim>\<open>datetime.strptime(s, "%Y-%m-%d")\<close>\<close>

text \<open>
  CPython compiles the format to the regular expression
  \<^verbatim>\<open>(?P<Y>\d\d\d\d)-(?P<m>1[0-2]|0[1-9]|[1-9])-(?P<d>3[0-1]|[1-2]\d|0[1-9]|[1-9]| [1-9])\<close>,
  matches it at the start of the string, raises \<^verbatim>\<open>ValueError\<close> when there is no match
  or when the match does not end at the end of the string, and then builds the date,
  which raises \<^verbatim>\<open>ValueError\<close> for year 0 and for a day the month does not have.
  \<open>None\<close> is \<^verbatim>\<open>ValueError\<close>. Digits are the ASCII digits.
\<close>

definition is_digit :: "char \<Rightarrow> bool" where
  "is_digit c = (CHR ''0'' \<le> c \<and> c \<le> CHR ''9'')"

definition digit_val :: "char \<Rightarrow> nat" where
  "digit_val c = of_char c - of_char CHR ''0''"

definition in_range :: "char \<Rightarrow> char \<Rightarrow> char \<Rightarrow> bool" where
  "in_range lo hi c = (lo \<le> c \<and> c \<le> hi)"

text \<open>\<^verbatim>\<open>(?P<Y>\d\d\d\d)\<close>: the year and the rest of the string.\<close>

fun re_Y :: "string \<Rightarrow> (nat \<times> string) option" where
  "re_Y (a # b # c # d # rest) =
     (if is_digit a \<and> is_digit b \<and> is_digit c \<and> is_digit d
      then Some (1000 * digit_val a + 100 * digit_val b + 10 * digit_val c + digit_val d, rest)
      else None)"
| "re_Y _ = None"

text \<open>
  \<^verbatim>\<open>(?P<m>1[0-2]|0[1-9]|[1-9])\<close>: every alternative that matches at the start of the
  string, in the order the regular expression tries them.
\<close>

fun re_m :: "string \<Rightarrow> (nat \<times> string) list" where
  "re_m [] = []"
| "re_m [a] = (if in_range CHR ''1'' CHR ''9'' a then [(digit_val a, [])] else [])"
| "re_m (a # b # rest) =
     (if a = CHR ''1'' \<and> in_range CHR ''0'' CHR ''2'' b then [(10 + digit_val b, rest)] else []) @
     (if a = CHR ''0'' \<and> in_range CHR ''1'' CHR ''9'' b then [(digit_val b, rest)] else []) @
     (if in_range CHR ''1'' CHR ''9'' a then [(digit_val a, b # rest)] else [])"

text \<open>\<^verbatim>\<open>(?P<d>3[0-1]|[1-2]\d|0[1-9]|[1-9]| [1-9])\<close>, likewise.\<close>

fun re_d :: "string \<Rightarrow> (nat \<times> string) list" where
  "re_d [] = []"
| "re_d [a] = (if in_range CHR ''1'' CHR ''9'' a then [(digit_val a, [])] else [])"
| "re_d (a # b # rest) =
     (if a = CHR ''3'' \<and> in_range CHR ''0'' CHR ''1'' b then [(30 + digit_val b, rest)] else []) @
     (if in_range CHR ''1'' CHR ''2'' a \<and> is_digit b then [(10 * digit_val a + digit_val b, rest)] else []) @
     (if a = CHR ''0'' \<and> in_range CHR ''1'' CHR ''9'' b then [(digit_val b, rest)] else []) @
     (if in_range CHR ''1'' CHR ''9'' a then [(digit_val a, b # rest)] else []) @
     (if a = CHR '' '' \<and> in_range CHR ''1'' CHR ''9'' b then [(digit_val b, rest)] else [])"

text \<open>A literal \<^verbatim>\<open>-\<close>.\<close>

fun re_dash :: "string \<Rightarrow> string option" where
  "re_dash (c # rest) = (if c = CHR ''-'' then Some rest else None)"
| "re_dash [] = None"

text \<open>
  The match of the whole expression: the first alternative of the month after which
  the rest of the expression matches, and the first alternative of the day. The result
  is year, month, day and the text after the match.
\<close>

fun re_tail :: "nat \<Rightarrow> (nat \<times> string) list \<Rightarrow> (nat \<times> nat \<times> nat \<times> string) option" where
  "re_tail y [] = None"
| "re_tail y ((m, s) # alts) =
     (case re_dash s of
        None \<Rightarrow> re_tail y alts
      | Some s' \<Rightarrow>
          (case re_d s' of
             [] \<Rightarrow> re_tail y alts
           | (d, rest) # _ \<Rightarrow> Some (y, m, d, rest)))"

definition re_match :: "string \<Rightarrow> (nat \<times> nat \<times> nat \<times> string) option" where
  "re_match s =
     (case re_Y s of
        None \<Rightarrow> None
      | Some (y, s1) \<Rightarrow>
          (case re_dash s1 of
             None \<Rightarrow> None
           | Some s2 \<Rightarrow> re_tail y (re_m s2)))"

definition is_leap :: "nat \<Rightarrow> bool" where
  "is_leap y = (y mod 4 = 0 \<and> (y mod 100 \<noteq> 0 \<or> y mod 400 = 0))"

definition days_in_month :: "nat \<Rightarrow> nat \<Rightarrow> nat" where
  "days_in_month y m =
     (if m = 2 then (if is_leap y then 29 else 28)
      else if m = 4 \<or> m = 6 \<or> m = 9 \<or> m = 11 then 30
      else 31)"

definition strptime :: "string \<Rightarrow> (nat \<times> nat \<times> nat) option" where
  "strptime s =
     (case re_match s of
        None \<Rightarrow> None
      | Some (y, m, d, rest) \<Rightarrow>
          if rest \<noteq> [] then None
          else if y < 1 then None
          else if d < 1 \<or> days_in_month y m < d then None
          else Some (y, m, d))"

subsection \<open>GET /announcements\<close>

text \<open>\<^verbatim>\<open>announcements_collection.find({"expiration_date": {"$gte": current_date}})\<close>\<close>

definition find_gte_expiration :: "string \<Rightarrow> 'oid document list \<Rightarrow> 'oid document list" where
  "find_gte_expiration current_date c =
     filter (\<lambda>d. case snd d ''expiration_date'' of
                   None \<Rightarrow> False
                 | Some e \<Rightarrow> current_date \<le> e) c"

text \<open>The \<^verbatim>\<open>for\<close> loop, with \<open>active_announcements\<close> as the accumulator.\<close>

fun active_loop ::
  "('oid \<Rightarrow> string) \<Rightarrow> string \<Rightarrow> 'oid document list \<Rightarrow> json list \<Rightarrow> json list" where
  "active_loop str current_date [] active_announcements = active_announcements"
| "active_loop str current_date (announcement # rest) active_announcements =
     (if truthy (snd announcement ''start_date'') then
        (case snd announcement ''start_date'' of
           Some start_date \<Rightarrow>
             if start_date \<le> current_date
             then active_loop str current_date rest
                    (active_announcements @ [str_id str announcement])
             else active_loop str current_date rest active_announcements
         | None \<Rightarrow> active_loop str current_date rest active_announcements)
      else active_loop str current_date rest
             (active_announcements @ [str_id str announcement]))"

definition get_active_announcements ::
  "('oid \<Rightarrow> string) \<Rightarrow> string \<Rightarrow> 'oid database \<Rightarrow> json list" where
  "get_active_announcements str current_date db =
     active_loop str current_date
       (find_gte_expiration current_date (announcements_collection db)) []"

subsection \<open>GET /announcements/all\<close>

text \<open>\<^verbatim>\<open>lambda x: x.get("expiration_date", "")\<close>\<close>

definition expiration_key :: "json \<Rightarrow> string" where
  "expiration_key x = (case x ''expiration_date'' of None \<Rightarrow> [] | Some e \<Rightarrow> e)"

text \<open>
  \<^verbatim>\<open>list.sort(key=..., reverse=True)\<close>: a stable sort in descending order of the key,
  which CPython obtains by reversing the list, sorting it stably in ascending order and
  reversing the result.
\<close>

definition sort_reverse :: "('a \<Rightarrow> string) \<Rightarrow> 'a list \<Rightarrow> 'a list" where
  "sort_reverse key xs = rev (sort_key key (rev xs))"

definition get_all_announcements ::
  "('oid \<Rightarrow> string) \<Rightarrow> 'oid database \<Rightarrow> string \<Rightarrow> error + json list" where
  "get_all_announcements str db username =
     (case find_one username (teachers_collection db) of
        None \<Rightarrow> Inl (HTTPException 401 ''Authentication required'')
      | Some teacher \<Rightarrow>
          Inr (sort_reverse expiration_key (map (str_id str) (announcements_collection db))))"

subsection \<open>POST /announcements\<close>

definition create_announcement ::
  "('oid \<Rightarrow> string) \<Rightarrow> string \<Rightarrow> 'oid \<Rightarrow> 'oid database \<Rightarrow>
   string \<Rightarrow> string \<Rightarrow> string \<Rightarrow> string option \<Rightarrow> (error + json) \<times> 'oid database" where
  "create_announcement str now inserted_id db username message expiration_date start_date =
     (case find_one username (teachers_collection db) of
        None \<Rightarrow> (Inl (HTTPException 401 ''Authentication required''), db)
      | Some teacher \<Rightarrow>
          if strptime expiration_date = None
          then (Inl (HTTPException 400 ''Invalid expiration_date format. Use YYYY-MM-DD''), db)
          else if truthy start_date \<and> (case start_date of None \<Rightarrow> False | Some s \<Rightarrow> strptime s = None)
          then (Inl (HTTPException 400 ''Invalid start_date format. Use YYYY-MM-DD''), db)
          else
            let announcement =
                  [''message'' \<mapsto> message,
                   ''expiration_date'' \<mapsto> expiration_date,
                   ''created_by'' \<mapsto> username,
                   ''created_at'' \<mapsto> now];
                announcement =
                  (case start_date of
                     Some s \<Rightarrow> if s \<noteq> [] then announcement(''start_date'' \<mapsto> s) else announcement
                   | None \<Rightarrow> announcement)
            in (case insert_one (inserted_id, announcement) (announcements_collection db) of
                  Inl e \<Rightarrow> (Inl e, db)
                | Inr c \<Rightarrow>
                    (Inr (str_id str (inserted_id, announcement)),
                     db\<lparr>announcements_collection := c\<rparr>)))"

subsection \<open>PUT /announcements/{announcement_id}\<close>

definition update_announcement ::
  "(string \<Rightarrow> 'oid option) \<Rightarrow> ('oid \<Rightarrow> string) \<Rightarrow> string \<Rightarrow> 'oid database \<Rightarrow>
   string \<Rightarrow> string \<Rightarrow> string \<Rightarrow> string \<Rightarrow> string option \<Rightarrow> (error + json) \<times> 'oid database" where
  "update_announcement ObjectId str now db announcement_id username message expiration_date start_date =
     (case find_one username (teachers_collection db) of
        None \<Rightarrow> (Inl (HTTPException 401 ''Authentication required''), db)
      | Some teacher \<Rightarrow>
          (case ObjectId announcement_id of
             None \<Rightarrow> (Inl (HTTPException 400 ''Invalid announcement ID''), db)
           | Some obj_id \<Rightarrow>
               if strptime expiration_date = None
               then (Inl (HTTPException 400 ''Invalid expiration_date format. Use YYYY-MM-DD''), db)
               else if truthy start_date \<and> (case start_date of None \<Rightarrow> False | Some s \<Rightarrow> strptime s = None)
               then (Inl (HTTPException 400 ''Invalid start_date format. Use YYYY-MM-DD''), db)
               else
                 let update_doc =
                       [''message'' \<mapsto> message,
                        ''expiration_date'' \<mapsto> expiration_date,
                        ''updated_by'' \<mapsto> username,
                        ''updated_at'' \<mapsto> now];
                     (update_doc, c1) =
                       (case start_date of
                          Some s \<Rightarrow>
                            if s \<noteq> [] then (update_doc(''start_date'' \<mapsto> s), announcements_collection db)
                            else (update_doc,
                                  snd (update_one obj_id (unset_field ''start_date'') (announcements_collection db)))
                        | None \<Rightarrow>
                            (update_doc,
                             snd (update_one obj_id (unset_field ''start_date'') (announcements_collection db))));
                     (matched_count, c2) = update_one obj_id (set_fields update_doc) c1;
                     db' = db\<lparr>announcements_collection := c2\<rparr>
                 in if matched_count = 0
                    then (Inl (HTTPException 404 ''Announcement not found''), db')
                    else (case find_one obj_id c2 of
                            None \<Rightarrow> (Inl TypeError, db')
                          | Some updated_announcement \<Rightarrow>
                              (Inr (str_id str updated_announcement), db'))))"

subsection \<open>DELETE /announcements/{announcement_id}\<close>

definition delete_announcement ::
  "(string \<Rightarrow> 'oid option) \<Rightarrow> 'oid database \<Rightarrow> string \<Rightarrow> string \<Rightarrow>
   (error + json) \<times> 'oid database" where
  "delete_announcement ObjectId db announcement_id username =
     (case find_one username (teachers_collection db) of
        None \<Rightarrow> (Inl (HTTPException 401 ''Authentication required''), db)
      | Some teacher \<Rightarrow>
          (case ObjectId announcement_id of
             None \<Rightarrow> (Inl (HTTPException 400 ''Invalid announcement ID''), db)
           | Some obj_id \<Rightarrow>
               let (deleted_count, c) = delete_one obj_id (announcements_collection db);
                   db' = db\<lparr>announcements_collection := c\<rparr>
               in if deleted_count = 0
                  then (Inl (HTTPException 404 ''Announcement not found''), db')
                  else (Inr [''message'' \<mapsto> ''Announcement deleted successfully''], db')))"

subsection \<open>Auxiliary notions used in the statements\<close>

definition active_at :: "string \<Rightarrow> fields \<Rightarrow> bool" where
  "active_at D f =
     ((case f ''expiration_date'' of None \<Rightarrow> False | Some e \<Rightarrow> D \<le> e) \<and>
      (case f ''start_date'' of None \<Rightarrow> True | Some s \<Rightarrow> s \<le> D))"

definition update_doc_of :: "string \<Rightarrow> string \<Rightarrow> string \<Rightarrow> string \<Rightarrow> fields" where
  "update_doc_of message expiration_date username now =
     [''message'' \<mapsto> message,
      ''expiration_date'' \<mapsto> expiration_date,
      ''updated_by'' \<mapsto> username,
      ''updated_at'' \<mapsto> now]"

definition new_announcement :: "string \<Rightarrow> string \<Rightarrow> string \<Rightarrow> string \<Rightarrow> string option \<Rightarrow> fields" where
  "new_announcement message expiration_date username now start_date =
     (let announcement =
            [''message'' \<mapsto> message,
             ''expiration_date'' \<mapsto> expiration_date,
             ''created_by'' \<mapsto> username,
             ''created_at'' \<mapsto> now]
      in case start_date of
           Some s \<Rightarrow> if s \<noteq> [] then announcement(''start_date'' \<mapsto> s) else announcement
         | None \<Rightarrow> announcement)"

text \<open>
  The date format in the words of the specification: exactly \<^verbatim>\<open>YYYY-MM-DD\<close>, four, two
  and two digits, that name a day of the calendar.
\<close>

fun exact_date :: "string \<Rightarrow> bool" where
  "exact_date [y1, y2, y3, y4, h1, m1, m2, h2, d1, d2] =
     (is_digit y1 \<and> is_digit y2 \<and> is_digit y3 \<and> is_digit y4 \<and> h1 = CHR ''-'' \<and>
      is_digit m1 \<and> is_digit m2 \<and> h2 = CHR ''-'' \<and> is_digit d1 \<and> is_digit d2 \<and>
      (let y = 1000 * digit_val y1 + 100 * digit_val y2 + 10 * digit_val y3 + digit_val y4;
           m = 10 * digit_val m1 + digit_val m2;
           d = 10 * digit_val d1 + digit_val d2
       in 1 \<le> y \<and> 1 \<le> m \<and> m \<le> 12 \<and> 1 \<le> d \<and> d \<le> days_in_month y m))"
| "exact_date _ = False"

subsection \<open>Sample data\<close>

text \<open>
  A small database for the closed examples below. Identifiers are their 24 lowercase
  hexadecimal digits, so that \<^verbatim>\<open>str\<close> is the identity.
\<close>

definition is_hex :: "char \<Rightarrow> bool" where
  "is_hex c = (in_range CHR ''0'' CHR ''9'' c \<or> in_range CHR ''a'' CHR ''f'' c)"

definition sample_ObjectId :: "string \<Rightarrow> string option" where
  "sample_ObjectId s = (if length s = 24 \<and> list_all is_hex s then Some s else None)"

definition sample_str :: "string \<Rightarrow> string" where
  "sample_str oid = oid"

definition sample_a1 :: "string document" where
  "sample_a1 = (''650000000000000000000001'',
     [''message'' \<mapsto> ''Open house'', ''expiration_date'' \<mapsto> ''2099-01-01'',
      ''created_by'' \<mapsto> ''mrodriguez'', ''created_at'' \<mapsto> ''2026-01-05T09:00:00''])"

definition sample_a2 :: "string document" where
  "sample_a2 = (''650000000000000000000002'',
     [''message'' \<mapsto> ''Old news'', ''expiration_date'' \<mapsto> ''2000-01-01''])"

definition sample_a3 :: "string document" where
  "sample_a3 = (''650000000000000000000003'',
     [''message'' \<mapsto> ''Spring term'', ''expiration_date'' \<mapsto> ''2099-06-01'',
      ''start_date'' \<mapsto> ''2099-01-01''])"

definition sample_a4 :: "string document" where
  "sample_a4 = (''650000000000000000000004'',
     [''message'' \<mapsto> ''Library hours'', ''expiration_date'' \<mapsto> ''2099-03-01'',
      ''start_date'' \<mapsto> []])"

definition sample_db :: "string database" where
  "sample_db = \<lparr>announcements_collection = [sample_a1, sample_a2, sample_a3, sample_a4],
                teachers_collection = [(''mrodriguez'', [''display_name'' \<mapsto> ''Ms. Rodriguez''])]\<rparr>"

definition sample_unpadded :: "string document" where
  "sample_unpadded = (''650000000000000000000009'',
     [''message'' \<mapsto> ''Field trip'', ''expiration_date'' \<mapsto> ''2099-1-5'',
      ''created_by'' \<mapsto> ''mrodriguez'', ''created_at'' \<mapsto> ''2026-11-04T10:00:00''])"

definition sample_a3_unpadded :: "string document" where
  "sample_a3_unpadded = (''650000000000000000000003'',
     [''message'' \<mapsto> ''Spring term (revised)'', ''expiration_date'' \<mapsto> ''2099-1-5'',
      ''updated_by'' \<mapsto> ''mrodriguez'', ''updated_at'' \<mapsto> ''2026-11-04T10:00:00''])"

definition sample_a5 :: "string document" where
  "sample_a5 = (''650000000000000000000005'', [''message'' \<mapsto> ''Undated notice''])"

definition sample_db_undated :: "string database" where
  "sample_db_undated =
     \<lparr>announcements_collection = [sample_a5, sample_a1, sample_a2, sample_a3, sample_a4],
      teachers_collection = [(''mrodriguez'', [''display_name'' \<mapsto> ''Ms. Rodriguez''])]\<rparr>"

section \<open>Auxiliary lemmas\<close>

lemma active_loop_eq:
  "active_loop str cd xs acc =
     acc @ map (str_id str)
             (filter (\<lambda>d. case snd d ''start_date'' of None \<Rightarrow> True | Some s \<Rightarrow> s \<le> cd) xs)"
proof (induction xs arbitrary: acc)
  case Nil
  show ?case by simp
next
  case (Cons a xs)
  show ?case
  proof (cases "snd a ''start_date''")
    case None
    then show ?thesis by (simp add: Cons.IH)
  next
    case (Some s)
    then show ?thesis by (cases "s = []") (simp_all add: Cons.IH)
  qed
qed

lemma get_active_announcements_eq:
  "get_active_announcements str D db =
     map (str_id str) (filter (\<lambda>d. active_at D (snd d)) (announcements_collection db))"
  unfolding get_active_announcements_def find_gte_expiration_def active_loop_eq active_at_def
  by (simp add: conj_commute)

lemma str_id_other: "k \<noteq> ''_id'' \<Longrightarrow> str_id str d k = snd d k"
  by (simp add: str_id_def)

lemma str_id_active:
  assumes "str_id str d' = str_id str d"
  shows "active_at D (snd d') = active_at D (snd d)"
proof -
  have e: "snd d' ''expiration_date'' = snd d ''expiration_date''"
    using str_id_other [of "''expiration_date''" str d'] str_id_other [of "''expiration_date''" str d] assms
    by simp
  have s: "snd d' ''start_date'' = snd d ''start_date''"
    using str_id_other [of "''start_date''" str d'] str_id_other [of "''start_date''" str d] assms
    by simp
  show ?thesis by (simp add: active_at_def e s)
qed

lemma find_one_Cons:
  "find_one k (d # ds) = (if fst d = k then Some d else find_one k ds)"
  by (simp add: find_one_def)

lemma find_one_Nil: "find_one k [] = None"
  by (simp add: find_one_def)

lemma find_one_None_iff: "find_one k c = None \<longleftrightarrow> k \<notin> fst ` set c"
  by (induction c) (auto simp: find_one_Cons find_one_Nil)

lemma find_one_SomeD: "find_one k c = Some d \<Longrightarrow> fst d = k \<and> d \<in> set c"
  by (induction c) (auto simp: find_one_Cons find_one_Nil split: if_splits)

lemma fst_update_one:
  "fst (update_one k u c) = (case find_one k c of None \<Rightarrow> 0 | Some d \<Rightarrow> 1)"
  by (induction c) (simp_all add: find_one_Cons find_one_Nil)

lemma find_one_update_one:
  "find_one k (snd (update_one k u c)) =
     map_option (\<lambda>d. (fst d, u (snd d))) (find_one k c)"
  by (induction c) (simp_all add: find_one_Cons find_one_Nil)

lemma update_one_absent: "find_one k c = None \<Longrightarrow> update_one k u c = (0, c)"
  by (induction c) (simp_all add: find_one_Cons find_one_Nil split: if_splits)

lemma keys_update_one: "map fst (snd (update_one k u c)) = map fst c"
  by (induction c) simp_all

lemma delete_one_absent: "find_one k c = None \<Longrightarrow> delete_one k c = (0, c)"
  by (induction c) (simp_all add: find_one_Cons find_one_Nil split: if_splits)

lemma delete_one_present: "find_one k c = Some d \<Longrightarrow> delete_one k c = (1, remove1 d c)"
proof (induction c)
  case Nil
  then show ?case by (simp add: find_one_Nil)
next
  case (Cons a c)
  show ?case
  proof (cases "fst a = k")
    case True
    with Cons.prems show ?thesis by (simp add: find_one_Cons)
  next
    case False
    with Cons.prems have f: "find_one k c = Some d" by (simp add: find_one_Cons)
    then have "fst d = k" by (simp add: find_one_SomeD)
    with False have "a \<noteq> d" by auto
    with False Cons.IH [OF f] show ?thesis by simp
  qed
qed

lemma find_one_remove1:
  "distinct (map fst c) \<Longrightarrow> find_one k c = Some d \<Longrightarrow> find_one k (remove1 d c) = None"
proof -
  assume dist: "distinct (map fst c)" and f: "find_one k c = Some d"
  from f have d: "fst d = k" "d \<in> set c" using find_one_SomeD [of k c d] by simp_all
  from dist have dc: "distinct c" by (rule distinct_map [THEN iffD1, THEN conjunct1])
  have "k \<notin> fst ` set (remove1 d c)"
  proof
    assume "k \<in> fst ` set (remove1 d c)"
    then obtain d' where d': "d' \<in> set (remove1 d c)" "fst d' = k" by auto
    with dc have "d' \<in> set c" "d' \<noteq> d" by auto
    moreover from dist have "inj_on fst (set c)" by (simp add: distinct_map)
    ultimately show False using d d' by (auto dest: inj_onD)
  qed
  then show ?thesis by (simp add: find_one_None_iff)
qed

lemma set_sort_reverse: "set (sort_reverse key xs) = set xs"
  by (simp add: sort_reverse_def)

lemma mset_sort_reverse: "mset (sort_reverse key xs) = mset xs"
  by (simp add: sort_reverse_def)

lemma sorted_sort_reverse: "sorted_wrt (\<lambda>a b. key b \<le> key a) (sort_reverse key xs)"
proof -
  have "sorted (map key (sort_key key (rev xs)))" by (rule sorted_sort_key)
  then have "sorted_wrt (\<lambda>a b. key a \<le> key b) (sort_key key (rev xs))"
    by (simp add: sorted_map)
  then show ?thesis by (simp add: sort_reverse_def sorted_wrt_rev)
qed

lemma update_announcement_falsy:
  assumes t: "find_one username (teachers_collection db) = Some teacher"
    and o: "ObjectId announcement_id = Some obj_id"
    and e: "strptime expiration_date \<noteq> None"
    and d: "find_one obj_id (announcements_collection db) = Some d"
    and s: "\<not> truthy start_date"
  shows "update_announcement ObjectId str now db announcement_id username message
           expiration_date start_date =
         (Inr (str_id str
                 (obj_id, set_fields (update_doc_of message expiration_date username now)
                            (unset_field ''start_date'' (snd d)))),
          db\<lparr>announcements_collection :=
               snd (update_one obj_id (set_fields (update_doc_of message expiration_date username now))
                 (snd (update_one obj_id (unset_field ''start_date'')
                    (announcements_collection db))))\<rparr>)"
proof -
  let ?c1 = "snd (update_one obj_id (unset_field ''start_date'') (announcements_collection db))"
  let ?u = "set_fields (update_doc_of message expiration_date username now)"
  have k: "fst d = obj_id" using d by (simp add: find_one_SomeD)
  have f1: "find_one obj_id ?c1 = Some (obj_id, unset_field ''start_date'' (snd d))"
    by (simp add: find_one_update_one d k)
  have m: "fst (update_one obj_id ?u ?c1) = 1"
    by (simp add: fst_update_one f1)
  have f2: "find_one obj_id (snd (update_one obj_id ?u ?c1)) =
              Some (obj_id, ?u (unset_field ''start_date'' (snd d)))"
    using find_one_update_one [of obj_id ?u ?c1] f1 by simp
  from s have s': "start_date = None \<or> start_date = Some []"
    by (cases start_date) simp_all
  from s' show ?thesis
  proof
    assume "start_date = None"
    then show ?thesis
      using e
      by (simp add: update_announcement_def t o Let_def case_prod_beta m f2
            update_doc_of_def [symmetric])
  next
    assume "start_date = Some []"
    then show ?thesis
      using e
      by (simp add: update_announcement_def t o Let_def case_prod_beta m f2
            update_doc_of_def [symmetric])
  qed
qed

lemma find_one_update_one_other:
  "k' \<noteq> k \<Longrightarrow> find_one k' (snd (update_one k u c)) = find_one k' c"
  by (induction c) (simp_all add: find_one_Cons find_one_Nil)

lemma update_doc_of_simps:
  "update_doc_of m e u n ''message'' = Some m"
  "update_doc_of m e u n ''expiration_date'' = Some e"
  "update_doc_of m e u n ''updated_by'' = Some u"
  "update_doc_of m e u n ''updated_at'' = Some n"
  "update_doc_of m e u n ''start_date'' = None"
  by (simp_all add: update_doc_of_def)

lemma update_doc_of_other:
  "k \<notin> {''message'', ''expiration_date'', ''updated_by'', ''updated_at''} \<Longrightarrow>
   update_doc_of m e u n k = None"
  by (simp add: update_doc_of_def)

lemma find_one_append_fresh:
  "k \<notin> fst ` set c \<Longrightarrow> find_one k (c @ [(k, f)]) = Some (k, f)"
  by (induction c) (auto simp: find_one_Cons find_one_Nil)

lemma new_announcement_simps:
  "new_announcement m e u n s ''message'' = Some m"
  "new_announcement m e u n s ''expiration_date'' = Some e"
  "new_announcement m e u n s ''created_by'' = Some u"
  "new_announcement m e u n s ''created_at'' = Some n"
  "new_announcement m e u n s ''start_date'' = (if truthy s then s else None)"
  by (simp_all add: new_announcement_def Let_def split: option.splits)

lemma create_announcement_ok:
  assumes t: "find_one username (teachers_collection db) = Some teacher"
    and e: "strptime expiration_date \<noteq> None"
    and s: "\<not> truthy start_date \<or> (\<exists>s. start_date = Some s \<and> strptime s \<noteq> None)"
    and fresh: "inserted_id \<notin> fst ` set (announcements_collection db)"
  shows "create_announcement str now inserted_id db username message expiration_date start_date =
           (Inr (str_id str (inserted_id,
                   new_announcement message expiration_date username now start_date)),
            db\<lparr>announcements_collection := announcements_collection db @
                 [(inserted_id, new_announcement message expiration_date username now start_date)]\<rparr>)"
proof (cases start_date)
  case None
  then show ?thesis
    using e fresh
    by (simp add: create_announcement_def t insert_one_def new_announcement_def Let_def)
next
  case (Some x)
  with s have "x = [] \<or> strptime x \<noteq> None" by auto
  with Some show ?thesis
    using e fresh
    by (auto simp: create_announcement_def t insert_one_def new_announcement_def Let_def)
qed

lemma update_announcement_unauthorized:
  "find_one username (teachers_collection db) = None \<Longrightarrow>
   update_announcement ObjectId str now db announcement_id username message expiration_date start_date
     = (Inl Unauthorized, db)"
  by (simp add: update_announcement_def Unauthorized_def)

lemma update_announcement_invalid_id:
  "find_one username (teachers_collection db) = Some teacher \<Longrightarrow> ObjectId announcement_id = None \<Longrightarrow>
   update_announcement ObjectId str now db announcement_id username message expiration_date start_date
     = (Inl InvalidId, db)"
  by (simp add: update_announcement_def InvalidId_def)

lemma update_announcement_invalid_expiration:
  "find_one username (teachers_collection db) = Some teacher \<Longrightarrow>
   ObjectId announcement_id = Some obj_id \<Longrightarrow> strptime expiration_date = None \<Longrightarrow>
   update_announcement ObjectId str now db announcement_id username message expiration_date start_date
     = (Inl (InvalidDate ''expiration_date''), db)"
  by (simp add: update_announcement_def InvalidDate_def)

lemma update_announcement_invalid_start:
  "find_one username (teachers_collection db) = Some teacher \<Longrightarrow>
   ObjectId announcement_id = Some obj_id \<Longrightarrow> strptime expiration_date \<noteq> None \<Longrightarrow>
   s \<noteq> [] \<Longrightarrow> strptime s = None \<Longrightarrow>
   update_announcement ObjectId str now db announcement_id username message expiration_date (Some s)
     = (Inl (InvalidDate ''start_date''), db)"
  by (simp add: update_announcement_def InvalidDate_def)

lemma update_announcement_validated:
  assumes "find_one username (teachers_collection db) = Some teacher"
    and "ObjectId announcement_id = Some obj_id"
    and "strptime expiration_date \<noteq> None"
    and "\<not> truthy start_date \<or> (\<exists>s. start_date = Some s \<and> strptime s \<noteq> None)"
  shows "(\<exists>db'. update_announcement ObjectId str now db announcement_id username message
                   expiration_date start_date = (Inl NotFound, db')) \<or>
         (\<exists>db'. update_announcement ObjectId str now db announcement_id username message
                   expiration_date start_date = (Inl TypeError, db')) \<or>
         (\<exists>j db'. update_announcement ObjectId str now db announcement_id username message
                   expiration_date start_date = (Inr j, db'))"
proof (cases start_date)
  case None
  then show ?thesis
    using assms(3)
    by (simp add: update_announcement_def assms(1,2) Let_def case_prod_beta NotFound_def
          split: option.splits)
next
  case (Some s)
  with assms(4) have "s = [] \<or> strptime s \<noteq> None" by auto
  with Some show ?thesis
    using assms(3)
    by (simp add: update_announcement_def assms(1,2) Let_def case_prod_beta NotFound_def
          split: option.splits)
qed

lemma delete_announcement_unauthorized:
  "find_one username (teachers_collection db) = None \<Longrightarrow>
   delete_announcement ObjectId db announcement_id username = (Inl Unauthorized, db)"
  by (simp add: delete_announcement_def Unauthorized_def)

lemma delete_announcement_invalid_id:
  "find_one username (teachers_collection db) = Some teacher \<Longrightarrow> ObjectId announcement_id = None \<Longrightarrow>
   delete_announcement ObjectId db announcement_id username = (Inl InvalidId, db)"
  by (simp add: delete_announcement_def InvalidId_def)

lemma delete_announcement_valid_id:
  assumes "find_one username (teachers_collection db) = Some teacher"
    and "ObjectId announcement_id = Some obj_id"
  shows "(\<exists>db'. delete_announcement ObjectId db announcement_id username = (Inl NotFound, db')) \<or>
         (\<exists>j db'. delete_announcement ObjectId db announcement_id username = (Inr j, db'))"
  by (simp add: delete_announcement_def assms Let_def case_prod_beta NotFound_def)

lemma error_distinct:
  "NotFound \<noteq> Unauthorized" "NotFound \<noteq> InvalidId" "NotFound \<noteq> InvalidDate f"
  "TypeError \<noteq> Unauthorized" "TypeError \<noteq> InvalidId" "TypeError \<noteq> InvalidDate f"
  "Unauthorized \<noteq> InvalidId" "Unauthorized \<noteq> InvalidDate f"
  "InvalidId \<noteq> InvalidDate ''expiration_date''" "InvalidId \<noteq> InvalidDate ''start_date''"
  by (simp_all add: NotFound_def Unauthorized_def InvalidId_def InvalidDate_def)

lemma sample_teacher:
  "find_one ''mrodriguez'' (teachers_collection sample_db) =
     Some (''mrodriguez'', [''display_name'' \<mapsto> ''Ms. Rodriguez''])"
  by (simp add: sample_db_def find_one_def)

lemma sample_stranger: "find_one ''stranger'' (teachers_collection sample_db) = None"
  by (simp add: sample_db_def find_one_def)

lemma sample_find_a3:
  "find_one ''650000000000000000000003'' (announcements_collection sample_db) = Some sample_a3"
  by (simp add: sample_db_def find_one_def sample_a1_def sample_a2_def sample_a3_def
        sample_a4_def)

lemma sample_find_a2:
  "find_one ''650000000000000000000002'' (announcements_collection sample_db) = Some sample_a2"
  by (simp add: sample_db_def find_one_def sample_a1_def sample_a2_def sample_a3_def
        sample_a4_def)

lemma sample_find_missing:
  "find_one ''650000000000000000000009'' (announcements_collection sample_db) = None"
  by (simp add: sample_db_def find_one_def sample_a1_def sample_a2_def sample_a3_def
        sample_a4_def)

lemma sample_ObjectId_a3:
  "sample_ObjectId ''650000000000000000000003'' = Some ''650000000000000000000003''"
  by (simp add: sample_ObjectId_def is_hex_def in_range_def)

lemma sample_ObjectId_a2:
  "sample_ObjectId ''650000000000000000000002'' = Some ''650000000000000000000002''"
  by (simp add: sample_ObjectId_def is_hex_def in_range_def)

lemma sample_ObjectId_missing:
  "sample_ObjectId ''650000000000000000000009'' = Some ''650000000000000000000009''"
  by (simp add: sample_ObjectId_def is_hex_def in_range_def)

lemma sample_ObjectId_malformed: "sample_ObjectId ''not-an-id'' = None"
  by (simp add: sample_ObjectId_def)

lemma sample_fresh:
  "''650000000000000000000009'' \<notin> fst ` set (announcements_collection sample_db)"
  by (simp add: sample_db_def sample_a1_def sample_a2_def sample_a3_def
        sample_a4_def)

lemma sample_distinct: "distinct (map fst (announcements_collection sample_db))"
  by (simp add: sample_db_def sample_a1_def sample_a2_def sample_a3_def
        sample_a4_def)

lemma strptime_padded: "strptime ''2099-12-31'' = Some (2099, 12, 31)"
  by code_simp

lemma strptime_slash: "strptime ''13/2023'' = None"
  by code_simp

lemma strptime_unpadded: "strptime ''2099-1-5'' = Some (2099, 1, 5)"
  by code_simp

lemma sample_list_all:
  "get_all_announcements sample_str sample_db ''mrodriguez'' =
     Inr [str_id sample_str sample_a3, str_id sample_str sample_a4,
          str_id sample_str sample_a1, str_id sample_str sample_a2]"
proof -
  have k: "expiration_key (str_id sample_str sample_a1) = ''2099-01-01''"
    "expiration_key (str_id sample_str sample_a2) = ''2000-01-01''"
    "expiration_key (str_id sample_str sample_a3) = ''2099-06-01''"
    "expiration_key (str_id sample_str sample_a4) = ''2099-03-01''"
    by (simp_all add: expiration_key_def str_id_def sample_a1_def sample_a2_def sample_a3_def
          sample_a4_def)
  have c: "announcements_collection sample_db = [sample_a1, sample_a2, sample_a3, sample_a4]"
    by (simp add: sample_db_def)
  show ?thesis
    by (simp add: get_all_announcements_def sample_teacher sort_reverse_def k c)
qed

subsection \<open>What the date validation accepts\<close>

lemma digit_val_range:
  "in_range CHR ''1'' CHR ''9'' c \<Longrightarrow> 1 \<le> digit_val c \<and> digit_val c \<le> 9"
  "in_range CHR ''0'' CHR ''2'' c \<Longrightarrow> digit_val c \<le> 2"
  "in_range CHR ''0'' CHR ''1'' c \<Longrightarrow> digit_val c \<le> 1"
  "in_range CHR ''1'' CHR ''2'' c \<Longrightarrow> 1 \<le> digit_val c \<and> digit_val c \<le> 2"
  "is_digit c \<Longrightarrow> digit_val c \<le> 9"
  by (simp_all add: in_range_def is_digit_def digit_val_def less_eq_char_def) linarith+

lemma re_m_range: "(m, rest) \<in> set (re_m s) \<Longrightarrow> 1 \<le> m \<and> m \<le> 12"
  by (induction s rule: re_m.induct) (auto split: if_splits dest: digit_val_range)

lemma re_tail_month:
  "re_tail y alts = Some (y', m, d, rest) \<Longrightarrow> y' = y \<and> (\<exists>r. (m, r) \<in> set alts)"
  by (induction y alts rule: re_tail.induct) (auto split: option.splits list.splits)

lemma re_Y_range: "re_Y s = Some (y, rest) \<Longrightarrow> y \<le> 9999"
proof (induction s rule: re_Y.induct)
  case (1 a b c d rest)
  then have "is_digit a" "is_digit b" "is_digit c" "is_digit d"
    and y: "y = 1000 * digit_val a + 100 * digit_val b + 10 * digit_val c + digit_val d"
    by (auto split: if_splits)
  then have "digit_val a \<le> 9" "digit_val b \<le> 9" "digit_val c \<le> 9" "digit_val d \<le> 9"
    by (simp_all add: digit_val_range)
  with y show ?case by simp
qed simp_all

lemma strptime_calendar_date:
  assumes "strptime s = Some (y, m, d)"
  shows "1 \<le> y \<and> y \<le> 9999 \<and> 1 \<le> m \<and> m \<le> 12 \<and> 1 \<le> d \<and> d \<le> days_in_month y m"
proof -
  from assms obtain rest where r: "re_match s = Some (y, m, d, rest)"
    and c: "1 \<le> y" "1 \<le> d" "d \<le> days_in_month y m"
    by (auto simp: strptime_def split: option.splits if_splits)
  from r obtain y0 s1 s2 where y0: "re_Y s = Some (y0, s1)"
    and t: "re_tail y0 (re_m s2) = Some (y, m, d, rest)"
    by (auto simp: re_match_def split: option.splits)
  from t have "y = y0" and "\<exists>r. (m, r) \<in> set (re_m s2)"
    using re_tail_month by blast+
  with y0 have "y \<le> 9999" "1 \<le> m \<and> m \<le> 12"
    using re_Y_range re_m_range by blast+
  with c show ?thesis by simp
qed

lemma char_eq_iff_nat: "c = d \<longleftrightarrow> (of_char c :: nat) = of_char d"
  by simp

lemma digit_cases:
  assumes "is_digit c"
  shows "digit_val c = 0 \<longleftrightarrow> c = CHR ''0''" "digit_val c = 1 \<longleftrightarrow> c = CHR ''1''"
    "digit_val c = 2 \<longleftrightarrow> c = CHR ''2''" "digit_val c = 3 \<longleftrightarrow> c = CHR ''3''"
    "c \<noteq> CHR ''-''"
  using assms
  by (auto simp: is_digit_def digit_val_def less_eq_char_def char_eq_iff_nat [of c])

lemma re_d_two_digits:
  assumes d1: "is_digit d1" and d2: "is_digit d2"
    and lo: "1 \<le> 10 * digit_val d1 + digit_val d2"
    and hi: "10 * digit_val d1 + digit_val d2 \<le> 31"
  shows "\<exists>alts. re_d [d1, d2] = (10 * digit_val d1 + digit_val d2, []) # alts"
proof -
  from d2 have v2: "digit_val d2 \<le> 9" by (simp add: digit_val_range)
  from hi have "digit_val d1 \<le> 3" by simp
  then have "digit_val d1 = 0 \<or> digit_val d1 = 1 \<or> digit_val d1 = 2 \<or> digit_val d1 = 3"
    by arith
  then consider (z) "d1 = CHR ''0''" | (o) "d1 = CHR ''1''" | (t) "d1 = CHR ''2''"
    | (h) "d1 = CHR ''3''"
    using digit_cases [OF d1] by blast
  then show ?thesis
  proof cases
    case z
    with lo have "1 \<le> digit_val d2" by (simp add: digit_val_def)
    with d2 have "in_range CHR ''1'' CHR ''9'' d2"
      by (simp add: in_range_def is_digit_def digit_val_def less_eq_char_def)
    with z show ?thesis by (simp add: in_range_def digit_val_def)
  next
    case o
    with d2 show ?thesis by (simp add: in_range_def digit_val_def)
  next
    case t
    with d2 show ?thesis by (simp add: in_range_def digit_val_def)
  next
    case h
    with hi have "digit_val d2 \<le> 1" by (simp add: digit_val_def)
    with d2 have "in_range CHR ''0'' CHR ''1'' d2"
      by (simp add: in_range_def is_digit_def digit_val_def less_eq_char_def)
    with h show ?thesis by (simp add: in_range_def digit_val_def)
  qed
qed

lemma re_tail_two_digits:
  assumes m1: "is_digit m1" and m2: "is_digit m2"
    and lo: "1 \<le> 10 * digit_val m1 + digit_val m2"
    and hi: "10 * digit_val m1 + digit_val m2 \<le> 12"
    and d: "re_d ds = (dv, rest) # alts"
  shows "re_tail y (re_m (m1 # m2 # CHR ''-'' # ds)) =
           Some (y, 10 * digit_val m1 + digit_val m2, dv, rest)"
proof -
  from hi have "digit_val m1 = 0 \<or> digit_val m1 = 1" by arith
  then consider (z) "m1 = CHR ''0''" | (o) "m1 = CHR ''1''"
    using digit_cases [OF m1] by blast
  then show ?thesis
  proof cases
    case z
    with lo have "1 \<le> digit_val m2" by (simp add: digit_val_def)
    with m2 have "in_range CHR ''1'' CHR ''9'' m2"
      by (simp add: in_range_def is_digit_def digit_val_def less_eq_char_def)
    with z show ?thesis by (simp add: in_range_def digit_val_def d)
  next
    case o
    with hi have "digit_val m2 \<le> 2" by (simp add: digit_val_def)
    with m2 have "in_range CHR ''0'' CHR ''2'' m2"
      by (simp add: in_range_def is_digit_def digit_val_def less_eq_char_def)
    with o show ?thesis by (simp add: in_range_def digit_val_def d)
  qed
qed

lemma days_in_month_le: "days_in_month y m \<le> 31"
  by (simp add: days_in_month_def)

lemma strptime_of_match:
  "re_match s = Some (y, m, d, []) \<Longrightarrow> 1 \<le> y \<Longrightarrow> 1 \<le> d \<Longrightarrow> d \<le> days_in_month y m \<Longrightarrow>
   strptime s = Some (y, m, d)"
  by (simp add: strptime_def)

lemma exact_date_accepted:
  assumes "exact_date s"
  shows "strptime s \<noteq> None"
proof -
  from assms obtain y1 y2 y3 y4 h1 m1 m2 h2 d1 d2
    where s: "s = [y1, y2, y3, y4, h1, m1, m2, h2, d1, d2]"
    by (cases s rule: exact_date.cases) simp_all
  let ?y = "1000 * digit_val y1 + 100 * digit_val y2 + 10 * digit_val y3 + digit_val y4"
  let ?m = "10 * digit_val m1 + digit_val m2"
  let ?d = "10 * digit_val d1 + digit_val d2"
  from assms s have dg: "is_digit y1" "is_digit y2" "is_digit y3" "is_digit y4"
    "is_digit m1" "is_digit m2" "is_digit d1" "is_digit d2"
    and h: "h1 = CHR ''-''" "h2 = CHR ''-''"
    and r: "1 \<le> ?y" "1 \<le> ?m" "?m \<le> 12" "1 \<le> ?d" "?d \<le> days_in_month ?y ?m"
    by (simp_all add: Let_def)
  from r(5) days_in_month_le [of ?y ?m] have "?d \<le> 31" by (rule order_trans)
  with re_d_two_digits [OF dg(7,8) r(4)]
  obtain alts where d: "re_d [d1, d2] = (?d, []) # alts" by blast
  have t: "re_tail ?y (re_m (m1 # m2 # CHR ''-'' # [d1, d2])) = Some (?y, ?m, ?d, [])"
    by (rule re_tail_two_digits [OF dg(5,6) r(2,3) d])
  have "re_match s = Some (?y, ?m, ?d, [])"
    using t by (simp add: re_match_def s dg h)
  from strptime_of_match [OF this r(1,4,5)] show ?thesis by simp
qed

lemma create_announcement_invalid_expiration:
  "find_one username (teachers_collection db) = Some teacher \<Longrightarrow> strptime expiration_date = None \<Longrightarrow>
   create_announcement str now inserted_id db username message expiration_date start_date
     = (Inl (InvalidDate ''expiration_date''), db)"
  by (simp add: create_announcement_def InvalidDate_def)

lemma create_announcement_invalid_start:
  "find_one username (teachers_collection db) = Some teacher \<Longrightarrow> strptime expiration_date \<noteq> None \<Longrightarrow>
   s \<noteq> [] \<Longrightarrow> strptime s = None \<Longrightarrow>
   create_announcement str now inserted_id db username message expiration_date (Some s)
     = (Inl (InvalidDate ''start_date''), db)"
  by (simp add: create_announcement_def InvalidDate_def)

subsection \<open>Further facts about the sample data and the update\<close>

lemma sample_undated_teacher:
  "find_one ''mrodriguez'' (teachers_collection sample_db_undated) =
     Some (''mrodriguez'', [''display_name'' \<mapsto> ''Ms. Rodriguez''])"
  by (simp add: sample_db_undated_def find_one_def)

lemma sample_undated_list_all:
  "get_all_announcements sample_str sample_db_undated ''mrodriguez'' =
     Inr [str_id sample_str sample_a3, str_id sample_str sample_a4,
          str_id sample_str sample_a1, str_id sample_str sample_a2,
          str_id sample_str sample_a5]"
proof -
  have k: "expiration_key (str_id sample_str sample_a1) = ''2099-01-01''"
    "expiration_key (str_id sample_str sample_a2) = ''2000-01-01''"
    "expiration_key (str_id sample_str sample_a3) = ''2099-06-01''"
    "expiration_key (str_id sample_str sample_a4) = ''2099-03-01''"
    "expiration_key (str_id sample_str sample_a5) = []"
    by (simp_all add: expiration_key_def str_id_def sample_a1_def sample_a2_def sample_a3_def
          sample_a4_def sample_a5_def)
  have c: "announcements_collection sample_db_undated =
             [sample_a5, sample_a1, sample_a2, sample_a3, sample_a4]"
    by (simp add: sample_db_undated_def)
  show ?thesis
    by (simp add: get_all_announcements_def sample_undated_teacher sort_reverse_def k c)
qed

lemma sample_undated_fields:
  "map (\<lambda>x. x ''expiration_date'')
     [str_id sample_str sample_a3, str_id sample_str sample_a4,
      str_id sample_str sample_a1, str_id sample_str sample_a2,
      str_id sample_str sample_a5] =
   [Some ''2099-06-01'', Some ''2099-03-01'', Some ''2099-01-01'', Some ''2000-01-01'', None]"
  by (simp add: str_id_def sample_a1_def sample_a2_def sample_a3_def sample_a4_def sample_a5_def)

lemma expiration_key_field:
  "expiration_key x = (case x ''expiration_date'' of None \<Rightarrow> [] | Some e \<Rightarrow> e)"
  by (simp add: expiration_key_def)

lemma sample_a3_unpadded_fields:
  "(''650000000000000000000003'',
    set_fields (update_doc_of ''Spring term (revised)'' ''2099-1-5'' ''mrodriguez''
                  ''2026-11-04T10:00:00'')
      (unset_field ''start_date'' (snd sample_a3))) = sample_a3_unpadded"
proof -
  have "set_fields (update_doc_of ''Spring term (revised)'' ''2099-1-5'' ''mrodriguez''
                  ''2026-11-04T10:00:00'')
      (unset_field ''start_date'' (snd sample_a3)) = snd sample_a3_unpadded"
    by (rule ext)
      (simp add: set_fields_def unset_field_def map_add_def update_doc_of_def sample_a3_def
         sample_a3_unpadded_def)
  then show ?thesis by (simp add: sample_a3_unpadded_def)
qed

lemma sample_update_a3_collection:
  "snd (update_one ''650000000000000000000003'' u (announcements_collection sample_db)) =
     [sample_a1, sample_a2, (''650000000000000000000003'', u (snd sample_a3)), sample_a4]"
  by (simp add: sample_db_def sample_a1_def sample_a2_def sample_a3_def)

lemma update_rejected_expiration_date:
  assumes "strptime expiration_date = None"
  shows "snd (update_announcement ObjectId str now db announcement_id username message
                expiration_date start_date) = db \<and>
         (find_one username (teachers_collection db) \<noteq> None \<and> ObjectId announcement_id \<noteq> None \<longrightarrow>
            fst (update_announcement ObjectId str now db announcement_id username message
                   expiration_date start_date) = Inl (InvalidDate ''expiration_date''))"
  using assms
  by (simp add: update_announcement_def InvalidDate_def split: option.splits)

lemma update_rejected_expiration_date_example:
  "strptime ''13/2023'' = None \<and>
   find_one ''mrodriguez'' (teachers_collection sample_db) \<noteq> None \<and>
   sample_ObjectId ''650000000000000000000003'' \<noteq> None \<and>
   fst (update_announcement sample_ObjectId sample_str ''2026-11-04T10:00:00'' sample_db
          ''650000000000000000000003'' ''mrodriguez'' ''Spring term (revised)'' ''13/2023'' None)
     = Inl (InvalidDate ''expiration_date'') \<and>
   snd (update_announcement sample_ObjectId sample_str ''2026-11-04T10:00:00'' sample_db
          ''650000000000000000000003'' ''mrodriguez'' ''Spring term (revised)'' ''13/2023'' None)
     = sample_db"
proof -
  have t: "find_one ''mrodriguez'' (teachers_collection sample_db) \<noteq> None"
    by (simp add: sample_teacher)
  have o: "sample_ObjectId ''650000000000000000000003'' \<noteq> None"
    by (simp add: sample_ObjectId_a3)
  from update_rejected_expiration_date
    [OF strptime_slash, of sample_ObjectId sample_str "''2026-11-04T10:00:00''" sample_db
       "''650000000000000000000003''" "''mrodriguez''" "''Spring term (revised)''" None]
    strptime_slash t o
  show ?thesis by blast
qed

section \<open>Properties\<close>

text \<open>
  \<^bold>\<open>C1.\<close> For every date \<open>D\<close>, the result of \<open>get_active_announcements\<close> is the stored
  announcements that are active at \<open>D\<close>, in store order, with \<^verbatim>\<open>_id\<close> rendered as a string;
  a stored announcement is in the result iff its \<^verbatim>\<open>expiration_date\<close> is at least \<open>D\<close>
  and its \<^verbatim>\<open>start_date\<close> is absent or at most \<open>D\<close>, both in the order on strings.
\<close>

theorem list_active_iff:
  "get_active_announcements str D db =
     map (str_id str) (filter (\<lambda>d. active_at D (snd d)) (announcements_collection db)) \<and>
   (\<forall>d \<in> set (announcements_collection db).
      str_id str d \<in> set (get_active_announcements str D db) \<longleftrightarrow> active_at D (snd d))"
proof (intro conjI ballI)
  show "get_active_announcements str D db =
     map (str_id str) (filter (\<lambda>d. active_at D (snd d)) (announcements_collection db))"
    by (rule get_active_announcements_eq)
next
  fix d assume d: "d \<in> set (announcements_collection db)"
  show "str_id str d \<in> set (get_active_announcements str D db) \<longleftrightarrow> active_at D (snd d)"
  proof
    assume "str_id str d \<in> set (get_active_announcements str D db)"
    then obtain d' where "active_at D (snd d')" "str_id str d' = str_id str d"
      by (auto simp: get_active_announcements_eq)
    then show "active_at D (snd d)" using str_id_active by blast
  next
    assume "active_at D (snd d)"
    with d show "str_id str d \<in> set (get_active_announcements str D db)"
      by (auto simp: get_active_announcements_eq)
  qed
qed

theorem list_active_iff_witness:
  "sample_a1 \<in> set (announcements_collection sample_db) \<and>
   active_at ''2026-11-04'' (snd sample_a1) \<and>
   str_id sample_str sample_a1 \<in> set (get_active_announcements sample_str ''2026-11-04'' sample_db) \<and>
   sample_a3 \<in> set (announcements_collection sample_db) \<and>
   \<not> active_at ''2026-11-04'' (snd sample_a3) \<and>
   str_id sample_str sample_a3 \<notin> set (get_active_announcements sample_str ''2026-11-04'' sample_db)"
proof -
  have m1: "sample_a1 \<in> set (announcements_collection sample_db)"
    and m3: "sample_a3 \<in> set (announcements_collection sample_db)"
    by (simp_all add: sample_db_def)
  have a1: "active_at ''2026-11-04'' (snd sample_a1)"
    by (simp add: active_at_def sample_a1_def)
  have a3: "\<not> active_at ''2026-11-04'' (snd sample_a3)"
    by (simp add: active_at_def sample_a3_def)
  from list_active_iff [of sample_str "''2026-11-04''" sample_db] m1 m3 a1 a3
  show ?thesis by blast
qed

text \<open>
  \<^bold>\<open>C2.\<close> Date validation is meant to accept exactly the form \<^verbatim>\<open>YYYY-MM-DD\<close>, as the
  messages of the module say. Every such date is accepted (\<open>exact_date_accepted\<close>) and
  every accepted string names a day of the calendar (\<open>strptime_calendar_date\<close>), but
  \<^verbatim>\<open>strptime\<close> also accepts a month and a day without the leading zero: \<^verbatim>\<open>"2099-1-5"\<close> passes the validation of \<open>create_announcement\<close> and is stored as
  it is. In the order on strings it is above \<^verbatim>\<open>"2099-01-10"\<close>, so the record is still
  listed as active on 10 January 2099.
\<close>

theorem unpadded_date_accepted:
  "\<not> exact_date ''2099-1-5'' \<and>
   strptime ''2099-1-5'' = Some (2099, 1, 5) \<and>
   create_announcement sample_str ''2026-11-04T10:00:00'' ''650000000000000000000009'' sample_db
     ''mrodriguez'' ''Field trip'' ''2099-1-5'' None =
     (Inr (str_id sample_str sample_unpadded),
      sample_db\<lparr>announcements_collection :=
        announcements_collection sample_db @ [sample_unpadded]\<rparr>) \<and>
   snd sample_unpadded ''expiration_date'' = Some ''2099-1-5'' \<and>
   str_id sample_str sample_unpadded \<in>
     set (get_active_announcements sample_str ''2099-01-10''
            (sample_db\<lparr>announcements_collection :=
               announcements_collection sample_db @ [sample_unpadded]\<rparr>))"
proof -
  have e: "strptime ''2099-1-5'' \<noteq> None" by (simp add: strptime_unpadded)
  have s: "\<not> truthy None \<or> (\<exists>s. None = Some s \<and> strptime s \<noteq> None)" by simp
  have n: "(''650000000000000000000009'',
            new_announcement ''Field trip'' ''2099-1-5'' ''mrodriguez'' ''2026-11-04T10:00:00'' None)
             = sample_unpadded"
    by (simp add: new_announcement_def sample_unpadded_def)
  have c: "create_announcement sample_str ''2026-11-04T10:00:00'' ''650000000000000000000009''
      sample_db ''mrodriguez'' ''Field trip'' ''2099-1-5'' None =
     (Inr (str_id sample_str sample_unpadded),
      sample_db\<lparr>announcements_collection :=
        announcements_collection sample_db @ [sample_unpadded]\<rparr>)"
    using create_announcement_ok
      [OF sample_teacher e s sample_fresh, of sample_str "''2026-11-04T10:00:00''" "''Field trip''"]
    by (simp only: n)
  have x: "snd sample_unpadded ''expiration_date'' = Some ''2099-1-5''"
    by (simp add: sample_unpadded_def)
  have a: "active_at ''2099-01-10'' (snd sample_unpadded)"
    by (simp add: active_at_def sample_unpadded_def)
  have l: "str_id sample_str sample_unpadded \<in>
     set (get_active_announcements sample_str ''2099-01-10''
            (sample_db\<lparr>announcements_collection :=
               announcements_collection sample_db @ [sample_unpadded]\<rparr>))"
    using a by (simp add: get_active_announcements_eq)
  have nx: "\<not> exact_date ''2099-1-5''" by simp
  from nx strptime_unpadded c x l show ?thesis by (intro conjI)
qed

text \<open>
  \<^bold>\<open>C3.\<close> For a registered user, an identifier of a stored announcement and a valid
  \<^verbatim>\<open>expiration_date\<close>, \<open>update_announcement\<close> without \<^verbatim>\<open>start_date\<close> succeeds; the
  stored record then has no \<^verbatim>\<open>start_date\<close>, has the new \<^verbatim>\<open>message\<close> and
  \<^verbatim>\<open>expiration_date\<close>, carries \<^verbatim>\<open>updated_by\<close> and \<^verbatim>\<open>updated_at\<close>, keeps its other
  fields, and is what a following \<open>find_one\<close> and the returned document show. The other
  records and the teachers are untouched.
\<close>

theorem update_omitted_start_date:
  assumes t: "find_one username (teachers_collection db) = Some teacher"
    and o: "ObjectId announcement_id = Some obj_id"
    and e: "strptime expiration_date \<noteq> None"
    and d: "find_one obj_id (announcements_collection db) = Some d"
  shows "\<exists>f db'.
           update_announcement ObjectId str now db announcement_id username message
             expiration_date None = (Inr (str_id str (obj_id, f)), db') \<and>
           find_one obj_id (announcements_collection db') = Some (obj_id, f) \<and>
           f ''start_date'' = None \<and>
           f ''message'' = Some message \<and>
           f ''expiration_date'' = Some expiration_date \<and>
           f ''updated_by'' = Some username \<and>
           f ''updated_at'' = Some now \<and>
           (\<forall>k. k \<notin> {''start_date'', ''message'', ''expiration_date'', ''updated_by'', ''updated_at''}
                \<longrightarrow> f k = snd d k) \<and>
           (\<forall>k'. k' \<noteq> obj_id \<longrightarrow>
                find_one k' (announcements_collection db') = find_one k' (announcements_collection db)) \<and>
           teachers_collection db' = teachers_collection db"
proof -
  let ?u = "set_fields (update_doc_of message expiration_date username now)"
  let ?f = "?u (unset_field ''start_date'' (snd d))"
  let ?c1 = "snd (update_one obj_id (unset_field ''start_date'') (announcements_collection db))"
  let ?c2 = "snd (update_one obj_id ?u ?c1)"
  let ?db' = "db\<lparr>announcements_collection := ?c2\<rparr>"
  have r: "update_announcement ObjectId str now db announcement_id username message
             expiration_date None = (Inr (str_id str (obj_id, ?f)), ?db')"
    using update_announcement_falsy
      [where ObjectId = ObjectId and announcement_id = announcement_id and start_date = None,
       OF t o e d]
    by simp
  have k: "fst d = obj_id" using d by (simp add: find_one_SomeD)
  have f1: "find_one obj_id ?c1 = Some (obj_id, unset_field ''start_date'' (snd d))"
    by (simp add: find_one_update_one d k)
  have f2: "find_one obj_id (announcements_collection ?db') = Some (obj_id, ?f)"
    using find_one_update_one [of obj_id ?u ?c1] f1 by simp
  have s: "?f ''start_date'' = None"
    by (simp add: set_fields_def unset_field_def map_add_def update_doc_of_simps)
  have m: "?f ''message'' = Some message" "?f ''expiration_date'' = Some expiration_date"
    "?f ''updated_by'' = Some username" "?f ''updated_at'' = Some now"
    by (simp_all add: set_fields_def map_add_def update_doc_of_simps)
  have rest: "\<forall>k. k \<notin> {''start_date'', ''message'', ''expiration_date'', ''updated_by'', ''updated_at''}
                \<longrightarrow> ?f k = snd d k"
    by (simp add: set_fields_def unset_field_def map_add_def update_doc_of_def)
  have others: "\<forall>k'. k' \<noteq> obj_id \<longrightarrow>
      find_one k' (announcements_collection ?db') = find_one k' (announcements_collection db)"
    by (simp add: find_one_update_one_other)
  have tc: "teachers_collection ?db' = teachers_collection db" by simp
  from r f2 s m rest others tc show ?thesis by blast
qed

theorem update_omitted_start_date_witness:
  "find_one ''mrodriguez'' (teachers_collection sample_db) \<noteq> None \<and>
   sample_ObjectId ''650000000000000000000003'' = Some ''650000000000000000000003'' \<and>
   strptime ''2099-12-31'' \<noteq> None \<and>
   find_one ''650000000000000000000003'' (announcements_collection sample_db) = Some sample_a3 \<and>
   snd sample_a3 ''start_date'' = Some ''2099-01-01'' \<and>
   (\<exists>f db'.
      update_announcement sample_ObjectId sample_str ''2026-11-04T10:00:00'' sample_db
        ''650000000000000000000003'' ''mrodriguez'' ''Spring term (revised)'' ''2099-12-31'' None
        = (Inr (str_id sample_str (''650000000000000000000003'', f)), db') \<and>
      find_one ''650000000000000000000003'' (announcements_collection db')
        = Some (''650000000000000000000003'', f) \<and>
      f ''start_date'' = None \<and>
      f ''message'' = Some ''Spring term (revised)'' \<and>
      f ''expiration_date'' = Some ''2099-12-31'' \<and>
      f ''updated_by'' = Some ''mrodriguez'' \<and>
      f ''updated_at'' = Some ''2026-11-04T10:00:00'')"
proof -
  have e: "strptime ''2099-12-31'' \<noteq> None" by (simp add: strptime_padded)
  have s: "snd sample_a3 ''start_date'' = Some ''2099-01-01''" by (simp add: sample_a3_def)
  have t: "find_one ''mrodriguez'' (teachers_collection sample_db) \<noteq> None"
    by (simp add: sample_teacher)
  from update_omitted_start_date
    [where ObjectId = sample_ObjectId and announcement_id = "''650000000000000000000003''",
     OF sample_teacher sample_ObjectId_a3 e sample_find_a3,
     of sample_str "''2026-11-04T10:00:00''" "''Spring term (revised)''"]
  have "\<exists>f db'.
      update_announcement sample_ObjectId sample_str ''2026-11-04T10:00:00'' sample_db
        ''650000000000000000000003'' ''mrodriguez'' ''Spring term (revised)'' ''2099-12-31'' None
        = (Inr (str_id sample_str (''650000000000000000000003'', f)), db') \<and>
      find_one ''650000000000000000000003'' (announcements_collection db')
        = Some (''650000000000000000000003'', f) \<and>
      f ''start_date'' = None \<and>
      f ''message'' = Some ''Spring term (revised)'' \<and>
      f ''expiration_date'' = Some ''2099-12-31'' \<and>
      f ''updated_by'' = Some ''mrodriguez'' \<and>
      f ''updated_at'' = Some ''2026-11-04T10:00:00''"
    by blast
  with t sample_ObjectId_a3 e sample_find_a3 s show ?thesis by (intro conjI)
qed

text \<open>
  \<^bold>\<open>C4.\<close> An update whose \<^verbatim>\<open>expiration_date\<close> is not a date in the form
  \<^verbatim>\<open>YYYY-MM-DD\<close> should return the error about \<^verbatim>\<open>expiration_date\<close> and write nothing.
  When \<^verbatim>\<open>strptime\<close> rejects the string this is so (\<open>update_rejected_expiration_date\<close>),
  but \<^verbatim>\<open>"2099-1-5"\<close> is not of that form and \<^verbatim>\<open>strptime\<close> accepts it: the update by a
  registered user of a stored announcement then succeeds, removes the record's
  \<^verbatim>\<open>start_date\<close> and stores the unpadded \<^verbatim>\<open>expiration_date\<close>.
\<close>

theorem update_unpadded_expiration_date:
  "\<not> exact_date ''2099-1-5'' \<and>
   find_one ''650000000000000000000003'' (announcements_collection sample_db) = Some sample_a3 \<and>
   snd sample_a3 ''start_date'' = Some ''2099-01-01'' \<and>
   snd sample_a3 ''expiration_date'' = Some ''2099-06-01'' \<and>
   update_announcement sample_ObjectId sample_str ''2026-11-04T10:00:00'' sample_db
     ''650000000000000000000003'' ''mrodriguez'' ''Spring term (revised)'' ''2099-1-5'' None =
     (Inr (str_id sample_str sample_a3_unpadded),
      sample_db\<lparr>announcements_collection :=
        [sample_a1, sample_a2, sample_a3_unpadded, sample_a4]\<rparr>) \<and>
   snd sample_a3_unpadded ''start_date'' = None \<and>
   snd sample_a3_unpadded ''expiration_date'' = Some ''2099-1-5'' \<and>
   fst (update_announcement sample_ObjectId sample_str ''2026-11-04T10:00:00'' sample_db
     ''650000000000000000000003'' ''mrodriguez'' ''Spring term (revised)'' ''2099-1-5'' None)
     \<noteq> Inl (InvalidDate ''expiration_date'') \<and>
   snd (update_announcement sample_ObjectId sample_str ''2026-11-04T10:00:00'' sample_db
     ''650000000000000000000003'' ''mrodriguez'' ''Spring term (revised)'' ''2099-1-5'' None)
     \<noteq> sample_db"
proof -
  let ?upd = "update_announcement sample_ObjectId sample_str ''2026-11-04T10:00:00'' sample_db
     ''650000000000000000000003'' ''mrodriguez'' ''Spring term (revised)'' ''2099-1-5'' None"
  have nx: "\<not> exact_date ''2099-1-5''" by simp
  have e: "strptime ''2099-1-5'' \<noteq> None" by (simp add: strptime_unpadded)
  have s3: "snd sample_a3 ''start_date'' = Some ''2099-01-01''"
    and e3: "snd sample_a3 ''expiration_date'' = Some ''2099-06-01''"
    by (simp_all add: sample_a3_def)
  have su: "snd sample_a3_unpadded ''start_date'' = None"
    and eu: "snd sample_a3_unpadded ''expiration_date'' = Some ''2099-1-5''"
    by (simp_all add: sample_a3_unpadded_def)
  have n: "\<not> truthy None" by simp
  have c1: "snd (update_one ''650000000000000000000003'' (unset_field ''start_date'')
                  (announcements_collection sample_db)) =
              [sample_a1, sample_a2,
               (''650000000000000000000003'', unset_field ''start_date'' (snd sample_a3)),
               sample_a4]"
    by (rule sample_update_a3_collection)
  have c2: "snd (update_one ''650000000000000000000003''
                  (set_fields (update_doc_of ''Spring term (revised)'' ''2099-1-5'' ''mrodriguez''
                     ''2026-11-04T10:00:00''))
                  [sample_a1, sample_a2,
                   (''650000000000000000000003'', unset_field ''start_date'' (snd sample_a3)),
                   sample_a4]) =
              [sample_a1, sample_a2, sample_a3_unpadded, sample_a4]"
    by (simp add: sample_a1_def sample_a2_def sample_a3_unpadded_fields)
  have r: "?upd = (Inr (str_id sample_str sample_a3_unpadded),
      sample_db\<lparr>announcements_collection :=
        [sample_a1, sample_a2, sample_a3_unpadded, sample_a4]\<rparr>)"
    using update_announcement_falsy
      [where ObjectId = sample_ObjectId and announcement_id = "''650000000000000000000003''"
         and start_date = None and str = sample_str and now = "''2026-11-04T10:00:00''"
         and message = "''Spring term (revised)''",
       OF sample_teacher sample_ObjectId_a3 e sample_find_a3 n]
    by (simp only: c1 c2 sample_a3_unpadded_fields)
  have f: "fst ?upd \<noteq> Inl (InvalidDate ''expiration_date'')" by (simp add: r)
  have d: "snd ?upd \<noteq> sample_db"
  proof
    assume "snd ?upd = sample_db"
    then have "announcements_collection (snd ?upd) = announcements_collection sample_db"
      by simp
    moreover have "announcements_collection (snd ?upd) =
        [sample_a1, sample_a2, sample_a3_unpadded, sample_a4]"
      by (simp add: r)
    moreover have "announcements_collection sample_db =
        [sample_a1, sample_a2, sample_a3, sample_a4]"
      by (simp add: sample_db_def)
    ultimately have "sample_a3_unpadded = sample_a3" by simp
    with su s3 show False by simp
  qed
  from nx sample_find_a3 s3 e3 r su eu f d show ?thesis by (intro conjI)
qed

text \<open>
  \<^bold>\<open>C5.\<close> For a username that is not in the teachers collection, create, update, delete
  and list-all answer 401, return no data and leave the database as it was. The active
  list takes no username and does not depend on the teachers collection.
\<close>

theorem authorization_gate:
  "(find_one username (teachers_collection db) = None \<longrightarrow>
      create_announcement str now inserted_id db username message expiration_date start_date
        = (Inl Unauthorized, db) \<and>
      update_announcement ObjectId str now db announcement_id username message expiration_date start_date
        = (Inl Unauthorized, db) \<and>
      delete_announcement ObjectId db announcement_id username = (Inl Unauthorized, db) \<and>
      get_all_announcements str db username = Inl Unauthorized) \<and>
   get_active_announcements str current_date (db\<lparr>teachers_collection := ts\<rparr>) =
     get_active_announcements str current_date db"
  by (simp add: create_announcement_def update_announcement_def delete_announcement_def
        get_all_announcements_def get_active_announcements_def Unauthorized_def)

theorem authorization_gate_witness:
  "find_one ''stranger'' (teachers_collection sample_db) = None \<and>
   create_announcement sample_str ''2026-11-04T10:00:00'' ''650000000000000000000009'' sample_db
     ''stranger'' ''Hello'' ''2099-12-31'' None = (Inl Unauthorized, sample_db) \<and>
   update_announcement sample_ObjectId sample_str ''2026-11-04T10:00:00'' sample_db
     ''650000000000000000000003'' ''stranger'' ''Hello'' ''2099-12-31'' None
     = (Inl Unauthorized, sample_db) \<and>
   delete_announcement sample_ObjectId sample_db ''650000000000000000000003'' ''stranger''
     = (Inl Unauthorized, sample_db) \<and>
   get_all_announcements sample_str sample_db ''stranger'' = Inl Unauthorized \<and>
   get_active_announcements sample_str ''2026-11-04'' (sample_db\<lparr>teachers_collection := []\<rparr>)
     = get_active_announcements sample_str ''2026-11-04'' sample_db"
  using authorization_gate
    [of "''stranger''" sample_db sample_str "''2026-11-04T10:00:00''" "''650000000000000000000009''"
        "''Hello''" "''2099-12-31''" None sample_ObjectId "''650000000000000000000003''"
        "''2026-11-04''" "[]"]
    sample_stranger
  by blast

text \<open>
  \<^bold>\<open>C6.\<close> For a registered user, \<open>get_all_announcements\<close> returns every stored
  announcement (as a multiset, the whole collection), in descending order of the
  \<^verbatim>\<open>expiration_date\<close> field, a missing field counting as the empty string: of two
  records that both have the field the earlier one in the result has the greater or
  equal date, and after a record without the field only records without it or with the
  empty string follow.
\<close>

theorem list_all_sorted:
  assumes "find_one username (teachers_collection db) = Some teacher"
  shows "\<exists>xs. get_all_announcements str db username = Inr xs \<and>
           mset xs = mset (map (str_id str) (announcements_collection db)) \<and>
           sorted_wrt (\<lambda>a b. (case b ''expiration_date'' of None \<Rightarrow> [] | Some e \<Rightarrow> e)
                            \<le> (case a ''expiration_date'' of None \<Rightarrow> [] | Some e \<Rightarrow> e)) xs \<and>
           (\<forall>i j ei ej. i < j \<and> j < length xs \<and> (xs ! i) ''expiration_date'' = Some ei \<and>
                  (xs ! j) ''expiration_date'' = Some ej \<longrightarrow> ej \<le> ei) \<and>
           (\<forall>i j. i < j \<and> j < length xs \<and> (xs ! i) ''expiration_date'' = None \<longrightarrow>
                  (xs ! j) ''expiration_date'' = None \<or> (xs ! j) ''expiration_date'' = Some [])"
proof -
  let ?xs = "sort_reverse expiration_key (map (str_id str) (announcements_collection db))"
  let ?f = "\<lambda>x::json. case x ''expiration_date'' of None \<Rightarrow> [] | Some e \<Rightarrow> e"
  have r: "get_all_announcements str db username = Inr ?xs"
    using assms by (simp add: get_all_announcements_def)
  have p: "mset ?xs = mset (map (str_id str) (announcements_collection db))"
    by (rule mset_sort_reverse)
  have "sorted_wrt (\<lambda>a b. expiration_key b \<le> expiration_key a) ?xs"
    by (rule sorted_sort_reverse)
  then have s: "sorted_wrt (\<lambda>a b. ?f b \<le> ?f a) ?xs"
    by (simp only: expiration_key_field)
  have n: "?f (?xs ! j) \<le> ?f (?xs ! i)" if "i < j" "j < length ?xs" for i j
    using s that by (simp only: sorted_wrt_iff_nth_less)
  have l1: "\<forall>i j ei ej. i < j \<and> j < length ?xs \<and> (?xs ! i) ''expiration_date'' = Some ei \<and>
                  (?xs ! j) ''expiration_date'' = Some ej \<longrightarrow> ej \<le> ei"
  proof (intro allI impI)
    fix i j ei ej
    assume a: "i < j \<and> j < length ?xs \<and> (?xs ! i) ''expiration_date'' = Some ei \<and>
                  (?xs ! j) ''expiration_date'' = Some ej"
    then have "?f (?xs ! j) \<le> ?f (?xs ! i)" using n by blast
    with a show "ej \<le> ei" by simp
  qed
  have l2: "\<forall>i j. i < j \<and> j < length ?xs \<and> (?xs ! i) ''expiration_date'' = None \<longrightarrow>
                  (?xs ! j) ''expiration_date'' = None \<or> (?xs ! j) ''expiration_date'' = Some []"
  proof (intro allI impI)
    fix i j
    assume a: "i < j \<and> j < length ?xs \<and> (?xs ! i) ''expiration_date'' = None"
    then have "?f (?xs ! j) \<le> ?f (?xs ! i)" using n by blast
    with a have "?f (?xs ! j) = []" by simp
    then show "(?xs ! j) ''expiration_date'' = None \<or> (?xs ! j) ''expiration_date'' = Some []"
      by (cases "(?xs ! j) ''expiration_date''") simp_all
  qed
  from r p s l1 l2 show ?thesis by blast
qed

theorem list_all_sorted_witness:
  "find_one ''mrodriguez'' (teachers_collection sample_db_undated) \<noteq> None \<and>
   snd sample_a5 ''expiration_date'' = None \<and>
   announcements_collection sample_db_undated =
     [sample_a5, sample_a1, sample_a2, sample_a3, sample_a4] \<and>
   get_all_announcements sample_str sample_db_undated ''mrodriguez'' =
     Inr [str_id sample_str sample_a3, str_id sample_str sample_a4,
          str_id sample_str sample_a1, str_id sample_str sample_a2,
          str_id sample_str sample_a5] \<and>
   map (\<lambda>x. x ''expiration_date'')
     [str_id sample_str sample_a3, str_id sample_str sample_a4,
      str_id sample_str sample_a1, str_id sample_str sample_a2,
      str_id sample_str sample_a5] =
     [Some ''2099-06-01'', Some ''2099-03-01'', Some ''2099-01-01'', Some ''2000-01-01'', None] \<and>
   mset [str_id sample_str sample_a3, str_id sample_str sample_a4,
         str_id sample_str sample_a1, str_id sample_str sample_a2,
         str_id sample_str sample_a5] =
     mset (map (str_id sample_str) (announcements_collection sample_db_undated)) \<and>
   sorted_wrt (\<lambda>a b. (case b ''expiration_date'' of None \<Rightarrow> [] | Some e \<Rightarrow> e)
                    \<le> (case a ''expiration_date'' of None \<Rightarrow> [] | Some e \<Rightarrow> e))
     [str_id sample_str sample_a3, str_id sample_str sample_a4,
      str_id sample_str sample_a1, str_id sample_str sample_a2,
      str_id sample_str sample_a5]"
proof -
  let ?L = "[str_id sample_str sample_a3, str_id sample_str sample_a4,
             str_id sample_str sample_a1, str_id sample_str sample_a2,
             str_id sample_str sample_a5]"
  have t: "find_one ''mrodriguez'' (teachers_collection sample_db_undated) \<noteq> None"
    by (simp add: sample_undated_teacher)
  have u: "snd sample_a5 ''expiration_date'' = None" by (simp add: sample_a5_def)
  have c: "announcements_collection sample_db_undated =
             [sample_a5, sample_a1, sample_a2, sample_a3, sample_a4]"
    by (simp add: sample_db_undated_def)
  from list_all_sorted [OF sample_undated_teacher, of sample_str]
  obtain xs where x: "get_all_announcements sample_str sample_db_undated ''mrodriguez'' = Inr xs"
    and m: "mset xs = mset (map (str_id sample_str) (announcements_collection sample_db_undated))"
    and s: "sorted_wrt (\<lambda>a b. (case b ''expiration_date'' of None \<Rightarrow> [] | Some e \<Rightarrow> e)
                    \<le> (case a ''expiration_date'' of None \<Rightarrow> [] | Some e \<Rightarrow> e)) xs"
    by blast
  from x sample_undated_list_all have e: "xs = ?L" by simp
  from t u c sample_undated_list_all sample_undated_fields m [unfolded e] s [unfolded e]
  show ?thesis by (intro conjI)
qed

text \<open>
  \<^bold>\<open>C7.\<close> For a registered user, \<open>delete_announcement\<close> answers \<open>InvalidId\<close> when the
  identifier does not parse, \<open>NotFound\<close> when it parses and no record has it, both
  without changing the database; when a record has it, that record is removed, the
  confirmation message is returned, and with unique identifiers no record with that
  identifier is left.
\<close>

theorem delete_announcement_cases:
  assumes "find_one username (teachers_collection db) = Some teacher"
  shows "(ObjectId announcement_id = None \<longrightarrow>
            delete_announcement ObjectId db announcement_id username = (Inl InvalidId, db)) \<and>
         (\<forall>obj_id. ObjectId announcement_id = Some obj_id \<longrightarrow>
            (find_one obj_id (announcements_collection db) = None \<longrightarrow>
               delete_announcement ObjectId db announcement_id username = (Inl NotFound, db)) \<and>
            (\<forall>d. find_one obj_id (announcements_collection db) = Some d \<longrightarrow>
               delete_announcement ObjectId db announcement_id username =
                 (Inr [''message'' \<mapsto> ''Announcement deleted successfully''],
                  db\<lparr>announcements_collection := remove1 d (announcements_collection db)\<rparr>) \<and>
               (distinct (map fst (announcements_collection db)) \<longrightarrow>
                  find_one obj_id (remove1 d (announcements_collection db)) = None)))"
  using assms
  by (simp add: delete_announcement_def InvalidId_def NotFound_def delete_one_absent
        delete_one_present find_one_remove1)

theorem delete_announcement_cases_witness:
  "find_one ''mrodriguez'' (teachers_collection sample_db) \<noteq> None \<and>
   sample_ObjectId ''not-an-id'' = None \<and>
   delete_announcement sample_ObjectId sample_db ''not-an-id'' ''mrodriguez''
     = (Inl InvalidId, sample_db) \<and>
   sample_ObjectId ''650000000000000000000009'' = Some ''650000000000000000000009'' \<and>
   find_one ''650000000000000000000009'' (announcements_collection sample_db) = None \<and>
   delete_announcement sample_ObjectId sample_db ''650000000000000000000009'' ''mrodriguez''
     = (Inl NotFound, sample_db) \<and>
   sample_ObjectId ''650000000000000000000002'' = Some ''650000000000000000000002'' \<and>
   find_one ''650000000000000000000002'' (announcements_collection sample_db) = Some sample_a2 \<and>
   distinct (map fst (announcements_collection sample_db)) \<and>
   delete_announcement sample_ObjectId sample_db ''650000000000000000000002'' ''mrodriguez''
     = (Inr [''message'' \<mapsto> ''Announcement deleted successfully''],
        sample_db\<lparr>announcements_collection := remove1 sample_a2 (announcements_collection sample_db)\<rparr>) \<and>
   find_one ''650000000000000000000002'' (remove1 sample_a2 (announcements_collection sample_db))
     = None"
proof -
  have t: "find_one ''mrodriguez'' (teachers_collection sample_db) \<noteq> None"
    by (simp add: sample_teacher)
  from delete_announcement_cases
    [where ObjectId = sample_ObjectId and announcement_id = "''not-an-id''", OF sample_teacher]
    sample_ObjectId_malformed
  have c1: "delete_announcement sample_ObjectId sample_db ''not-an-id'' ''mrodriguez''
     = (Inl InvalidId, sample_db)"
    by blast
  from delete_announcement_cases
    [where ObjectId = sample_ObjectId and announcement_id = "''650000000000000000000009''",
     OF sample_teacher]
    sample_ObjectId_missing sample_find_missing
  have c2: "delete_announcement sample_ObjectId sample_db ''650000000000000000000009'' ''mrodriguez''
     = (Inl NotFound, sample_db)"
    by blast
  from delete_announcement_cases
    [where ObjectId = sample_ObjectId and announcement_id = "''650000000000000000000002''",
     OF sample_teacher]
    sample_ObjectId_a2 sample_find_a2 sample_distinct
  have c3: "delete_announcement sample_ObjectId sample_db ''650000000000000000000002'' ''mrodriguez''
     = (Inr [''message'' \<mapsto> ''Announcement deleted successfully''],
        sample_db\<lparr>announcements_collection := remove1 sample_a2 (announcements_collection sample_db)\<rparr>) \<and>
     find_one ''650000000000000000000002'' (remove1 sample_a2 (announcements_collection sample_db))
     = None"
    by blast
  from t sample_ObjectId_malformed c1 sample_ObjectId_missing sample_find_missing c2
    sample_ObjectId_a2 sample_find_a2 sample_distinct c3
  show ?thesis by blast
qed

text \<open>
  \<^bold>\<open>C8.\<close> For a registered user, valid dates and a fresh identifier, \<open>create_announcement\<close>
  returns the stored record with \<^verbatim>\<open>_id\<close> rendered as a string, \<^verbatim>\<open>created_by\<close> the
  username and \<^verbatim>\<open>created_at\<close> the time of the call, and \<open>get_all_announcements\<close> by any
  registered user on the resulting database contains that record.
\<close>

theorem create_then_list_all:
  assumes t: "find_one username (teachers_collection db) = Some teacher"
    and e: "strptime expiration_date \<noteq> None"
    and s: "\<not> truthy start_date \<or> (\<exists>s. start_date = Some s \<and> strptime s \<noteq> None)"
    and fresh: "inserted_id \<notin> fst ` set (announcements_collection db)"
  shows "\<exists>j db'.
           create_announcement str now inserted_id db username message expiration_date start_date
             = (Inr j, db') \<and>
           j ''_id'' = Some (str inserted_id) \<and>
           j ''message'' = Some message \<and>
           j ''expiration_date'' = Some expiration_date \<and>
           j ''created_by'' = Some username \<and>
           j ''created_at'' = Some now \<and>
           (\<exists>f. find_one inserted_id (announcements_collection db') = Some (inserted_id, f) \<and>
                j = str_id str (inserted_id, f)) \<and>
           (\<forall>u t'. find_one u (teachers_collection db') = Some t' \<longrightarrow>
                (\<exists>xs. get_all_announcements str db' u = Inr xs \<and> j \<in> set xs))"
proof -
  let ?f = "new_announcement message expiration_date username now start_date"
  let ?j = "str_id str (inserted_id, ?f)"
  let ?db' = "db\<lparr>announcements_collection := announcements_collection db @ [(inserted_id, ?f)]\<rparr>"
  have r: "create_announcement str now inserted_id db username message expiration_date start_date
             = (Inr ?j, ?db')"
    by (rule create_announcement_ok [OF t e s fresh])
  have i: "?j ''_id'' = Some (str inserted_id)" by (simp add: str_id_def)
  have m: "?j ''message'' = Some message" "?j ''expiration_date'' = Some expiration_date"
    "?j ''created_by'' = Some username" "?j ''created_at'' = Some now"
    by (simp_all add: str_id_other new_announcement_simps)
  have f: "\<exists>f. find_one inserted_id (announcements_collection ?db') = Some (inserted_id, f) \<and>
                ?j = str_id str (inserted_id, f)"
    using fresh by (simp add: find_one_append_fresh)
  have l: "\<forall>u t'. find_one u (teachers_collection ?db') = Some t' \<longrightarrow>
                (\<exists>xs. get_all_announcements str ?db' u = Inr xs \<and> ?j \<in> set xs)"
    by (simp add: get_all_announcements_def set_sort_reverse)
  from r i m f l show ?thesis by blast
qed

theorem create_then_list_all_witness:
  "find_one ''mrodriguez'' (teachers_collection sample_db) \<noteq> None \<and>
   strptime ''2099-12-31'' \<noteq> None \<and>
   \<not> truthy None \<and>
   ''650000000000000000000009'' \<notin> fst ` set (announcements_collection sample_db) \<and>
   (\<exists>j db'.
      create_announcement sample_str ''2026-11-04T10:00:00'' ''650000000000000000000009'' sample_db
        ''mrodriguez'' ''Field trip'' ''2099-12-31'' None = (Inr j, db') \<and>
      j ''_id'' = Some (sample_str ''650000000000000000000009'') \<and>
      j ''created_by'' = Some ''mrodriguez'' \<and>
      j ''created_at'' = Some ''2026-11-04T10:00:00'' \<and>
      (\<exists>xs. get_all_announcements sample_str db' ''mrodriguez'' = Inr xs \<and> j \<in> set xs))"
proof -
  have t: "find_one ''mrodriguez'' (teachers_collection sample_db) \<noteq> None"
    by (simp add: sample_teacher)
  have e: "strptime ''2099-12-31'' \<noteq> None" by (simp add: strptime_padded)
  have n: "\<not> truthy None" by simp
  have s: "\<not> truthy None \<or> (\<exists>s. None = Some s \<and> strptime s \<noteq> None)" by simp
  from create_then_list_all
    [OF sample_teacher e s sample_fresh, of sample_str "''2026-11-04T10:00:00''" "''Field trip''"]
  obtain j db' where
    r: "create_announcement sample_str ''2026-11-04T10:00:00'' ''650000000000000000000009'' sample_db
        ''mrodriguez'' ''Field trip'' ''2099-12-31'' None = (Inr j, db')"
    and i: "j ''_id'' = Some (sample_str ''650000000000000000000009'')"
    and b: "j ''created_by'' = Some ''mrodriguez''"
    and a: "j ''created_at'' = Some ''2026-11-04T10:00:00''"
    and l: "\<forall>u t'. find_one u (teachers_collection db') = Some t' \<longrightarrow>
                (\<exists>xs. get_all_announcements sample_str db' u = Inr xs \<and> j \<in> set xs)"
    by blast
  from r have "db' = snd (create_announcement sample_str ''2026-11-04T10:00:00''
        ''650000000000000000000009'' sample_db ''mrodriguez'' ''Field trip'' ''2099-12-31'' None)"
    by simp
  then have "teachers_collection db' = teachers_collection sample_db"
    using e sample_fresh
    by (simp add: create_announcement_def sample_teacher insert_one_def Let_def)
  with sample_teacher l
  have "\<exists>xs. get_all_announcements sample_str db' ''mrodriguez'' = Inr xs \<and> j \<in> set xs"
    by simp
  with r i b a have "\<exists>j db'.
      create_announcement sample_str ''2026-11-04T10:00:00'' ''650000000000000000000009'' sample_db
        ''mrodriguez'' ''Field trip'' ''2099-12-31'' None = (Inr j, db') \<and>
      j ''_id'' = Some (sample_str ''650000000000000000000009'') \<and>
      j ''created_by'' = Some ''mrodriguez'' \<and>
      j ''created_at'' = Some ''2026-11-04T10:00:00'' \<and>
      (\<exists>xs. get_all_announcements sample_str db' ''mrodriguez'' = Inr xs \<and> j \<in> set xs)"
    by blast
  with t e n sample_fresh show ?thesis by (intro conjI)
qed

text \<open>
  \<^bold>\<open>C9.\<close> An empty \<^verbatim>\<open>start_date\<close> is an absent one: the empty string does not parse as a
  date, yet create and update with \<^verbatim>\<open>start_date=""\<close> behave as without \<^verbatim>\<open>start_date\<close>;
  a successful create stores no \<^verbatim>\<open>start_date\<close>, a successful update leaves none, and a
  stored record whose \<^verbatim>\<open>start_date\<close> is empty is in the active list iff it has not
  expired.
\<close>

theorem empty_start_date_is_absent:
  "strptime [] = None \<and>
   create_announcement str now inserted_id db username message expiration_date (Some [])
     = create_announcement str now inserted_id db username message expiration_date None \<and>
   update_announcement ObjectId str now db announcement_id username message expiration_date (Some [])
     = update_announcement ObjectId str now db announcement_id username message expiration_date None \<and>
   (find_one username (teachers_collection db) \<noteq> None \<and> strptime expiration_date \<noteq> None \<and>
    inserted_id \<notin> fst ` set (announcements_collection db) \<longrightarrow>
      (\<exists>f db'. create_announcement str now inserted_id db username message expiration_date (Some [])
                  = (Inr (str_id str (inserted_id, f)), db') \<and>
               find_one inserted_id (announcements_collection db') = Some (inserted_id, f) \<and>
               f ''start_date'' = None)) \<and>
   (\<forall>obj_id d. find_one username (teachers_collection db) \<noteq> None \<and>
       ObjectId announcement_id = Some obj_id \<and> strptime expiration_date \<noteq> None \<and>
       find_one obj_id (announcements_collection db) = Some d \<longrightarrow>
      (\<exists>f db'. update_announcement ObjectId str now db announcement_id username message
                  expiration_date (Some []) = (Inr (str_id str (obj_id, f)), db') \<and>
               find_one obj_id (announcements_collection db') = Some (obj_id, f) \<and>
               f ''start_date'' = None)) \<and>
   (\<forall>d \<in> set (announcements_collection db). snd d ''start_date'' = Some [] \<longrightarrow>
      (str_id str d \<in> set (get_active_announcements str current_date db) \<longleftrightarrow>
         (\<exists>e. snd d ''expiration_date'' = Some e \<and> current_date \<le> e)))"
proof (intro conjI)
  show "strptime [] = None" by (simp add: strptime_def re_match_def)
  show "create_announcement str now inserted_id db username message expiration_date (Some [])
     = create_announcement str now inserted_id db username message expiration_date None"
    by (cases "find_one username (teachers_collection db)")
      (simp_all add: create_announcement_def Let_def)
  show "update_announcement ObjectId str now db announcement_id username message expiration_date (Some [])
     = update_announcement ObjectId str now db announcement_id username message expiration_date None"
    by (cases "find_one username (teachers_collection db)"; cases "ObjectId announcement_id")
      (simp_all add: update_announcement_def Let_def)
  show "find_one username (teachers_collection db) \<noteq> None \<and> strptime expiration_date \<noteq> None \<and>
    inserted_id \<notin> fst ` set (announcements_collection db) \<longrightarrow>
      (\<exists>f db'. create_announcement str now inserted_id db username message expiration_date (Some [])
                  = (Inr (str_id str (inserted_id, f)), db') \<and>
               find_one inserted_id (announcements_collection db') = Some (inserted_id, f) \<and>
               f ''start_date'' = None)"
  proof
    assume a: "find_one username (teachers_collection db) \<noteq> None \<and> strptime expiration_date \<noteq> None \<and>
      inserted_id \<notin> fst ` set (announcements_collection db)"
    then obtain teacher where t: "find_one username (teachers_collection db) = Some teacher"
      by auto
    let ?f = "new_announcement message expiration_date username now (Some [])"
    have "create_announcement str now inserted_id db username message expiration_date (Some [])
            = (Inr (str_id str (inserted_id, ?f)),
               db\<lparr>announcements_collection := announcements_collection db @ [(inserted_id, ?f)]\<rparr>)"
      using create_announcement_ok [OF t, of expiration_date "Some []" inserted_id] a by simp
    moreover have "find_one inserted_id (announcements_collection
        (db\<lparr>announcements_collection := announcements_collection db @ [(inserted_id, ?f)]\<rparr>))
          = Some (inserted_id, ?f)"
      using a by (simp add: find_one_append_fresh)
    moreover have "?f ''start_date'' = None" by (simp add: new_announcement_simps)
    ultimately show "\<exists>f db'. create_announcement str now inserted_id db username message
        expiration_date (Some []) = (Inr (str_id str (inserted_id, f)), db') \<and>
        find_one inserted_id (announcements_collection db') = Some (inserted_id, f) \<and>
        f ''start_date'' = None"
      by blast
  qed
  show "\<forall>obj_id d. find_one username (teachers_collection db) \<noteq> None \<and>
       ObjectId announcement_id = Some obj_id \<and> strptime expiration_date \<noteq> None \<and>
       find_one obj_id (announcements_collection db) = Some d \<longrightarrow>
      (\<exists>f db'. update_announcement ObjectId str now db announcement_id username message
                  expiration_date (Some []) = (Inr (str_id str (obj_id, f)), db') \<and>
               find_one obj_id (announcements_collection db') = Some (obj_id, f) \<and>
               f ''start_date'' = None)"
  proof (intro allI impI)
    fix obj_id d
    assume a: "find_one username (teachers_collection db) \<noteq> None \<and>
       ObjectId announcement_id = Some obj_id \<and> strptime expiration_date \<noteq> None \<and>
       find_one obj_id (announcements_collection db) = Some d"
    then obtain teacher where t: "find_one username (teachers_collection db) = Some teacher"
      by auto
    from a have o: "ObjectId announcement_id = Some obj_id"
      and e: "strptime expiration_date \<noteq> None"
      and d: "find_one obj_id (announcements_collection db) = Some d" by simp_all
    let ?u = "set_fields (update_doc_of message expiration_date username now)"
    let ?f = "?u (unset_field ''start_date'' (snd d))"
    let ?c1 = "snd (update_one obj_id (unset_field ''start_date'') (announcements_collection db))"
    let ?db' = "db\<lparr>announcements_collection := snd (update_one obj_id ?u ?c1)\<rparr>"
    have r: "update_announcement ObjectId str now db announcement_id username message
             expiration_date (Some []) = (Inr (str_id str (obj_id, ?f)), ?db')"
      using update_announcement_falsy
        [where ObjectId = ObjectId and announcement_id = announcement_id and start_date = "Some []",
         OF t o e d]
      by simp
    have k: "fst d = obj_id" using d by (simp add: find_one_SomeD)
    have f1: "find_one obj_id ?c1 = Some (obj_id, unset_field ''start_date'' (snd d))"
      by (simp add: find_one_update_one d k)
    have f2: "find_one obj_id (announcements_collection ?db') = Some (obj_id, ?f)"
      using find_one_update_one [of obj_id ?u ?c1] f1 by simp
    have s: "?f ''start_date'' = None"
      by (simp add: set_fields_def unset_field_def map_add_def update_doc_of_simps)
    from r f2 s show "\<exists>f db'. update_announcement ObjectId str now db announcement_id username message
                  expiration_date (Some []) = (Inr (str_id str (obj_id, f)), db') \<and>
               find_one obj_id (announcements_collection db') = Some (obj_id, f) \<and>
               f ''start_date'' = None"
      by blast
  qed
  show "\<forall>d \<in> set (announcements_collection db). snd d ''start_date'' = Some [] \<longrightarrow>
      (str_id str d \<in> set (get_active_announcements str current_date db) \<longleftrightarrow>
         (\<exists>e. snd d ''expiration_date'' = Some e \<and> current_date \<le> e))"
  proof (intro ballI impI)
    fix d assume d: "d \<in> set (announcements_collection db)" and s: "snd d ''start_date'' = Some []"
    have a: "active_at current_date (snd d) \<longleftrightarrow>
               (\<exists>e. snd d ''expiration_date'' = Some e \<and> current_date \<le> e)"
      by (simp add: active_at_def s split: option.splits)
    show "str_id str d \<in> set (get_active_announcements str current_date db) \<longleftrightarrow>
         (\<exists>e. snd d ''expiration_date'' = Some e \<and> current_date \<le> e)"
    proof
      assume "str_id str d \<in> set (get_active_announcements str current_date db)"
      then obtain d' where "active_at current_date (snd d')" "str_id str d' = str_id str d"
        by (auto simp: get_active_announcements_eq)
      then have "active_at current_date (snd d)" using str_id_active by blast
      with a show "\<exists>e. snd d ''expiration_date'' = Some e \<and> current_date \<le> e" by simp
    next
      assume "\<exists>e. snd d ''expiration_date'' = Some e \<and> current_date \<le> e"
      with a have "active_at current_date (snd d)" by simp
      with d show "str_id str d \<in> set (get_active_announcements str current_date db)"
        by (auto simp: get_active_announcements_eq)
    qed
  qed
qed

theorem empty_start_date_is_absent_witness:
  "find_one ''mrodriguez'' (teachers_collection sample_db) \<noteq> None \<and>
   strptime ''2099-12-31'' \<noteq> None \<and>
   ''650000000000000000000009'' \<notin> fst ` set (announcements_collection sample_db) \<and>
   (\<exists>f db'. create_announcement sample_str ''2026-11-04T10:00:00'' ''650000000000000000000009''
               sample_db ''mrodriguez'' ''Field trip'' ''2099-12-31'' (Some [])
               = (Inr (str_id sample_str (''650000000000000000000009'', f)), db') \<and>
             find_one ''650000000000000000000009'' (announcements_collection db')
               = Some (''650000000000000000000009'', f) \<and>
             f ''start_date'' = None) \<and>
   sample_ObjectId ''650000000000000000000003'' = Some ''650000000000000000000003'' \<and>
   find_one ''650000000000000000000003'' (announcements_collection sample_db) = Some sample_a3 \<and>
   (\<exists>f db'. update_announcement sample_ObjectId sample_str ''2026-11-04T10:00:00'' sample_db
               ''650000000000000000000003'' ''mrodriguez'' ''Field trip'' ''2099-12-31'' (Some [])
               = (Inr (str_id sample_str (''650000000000000000000003'', f)), db') \<and>
             find_one ''650000000000000000000003'' (announcements_collection db')
               = Some (''650000000000000000000003'', f) \<and>
             f ''start_date'' = None) \<and>
   sample_a4 \<in> set (announcements_collection sample_db) \<and>
   snd sample_a4 ''start_date'' = Some [] \<and>
   snd sample_a4 ''expiration_date'' = Some ''2099-03-01'' \<and>
   ''2026-11-04'' \<le> ''2099-03-01'' \<and>
   str_id sample_str sample_a4 \<in> set (get_active_announcements sample_str ''2026-11-04'' sample_db)"
proof -
  have t: "find_one ''mrodriguez'' (teachers_collection sample_db) \<noteq> None"
    by (simp add: sample_teacher)
  have e: "strptime ''2099-12-31'' \<noteq> None" by (simp add: strptime_padded)
  have m: "sample_a4 \<in> set (announcements_collection sample_db)" by (simp add: sample_db_def)
  have s: "snd sample_a4 ''start_date'' = Some []" by (simp add: sample_a4_def)
  have x: "snd sample_a4 ''expiration_date'' = Some ''2099-03-01''" by (simp add: sample_a4_def)
  have le: "''2026-11-04'' \<le> ''2099-03-01''" by simp
  note w = empty_start_date_is_absent
    [of sample_str "''2026-11-04T10:00:00''" "''650000000000000000000009''" sample_db
        "''mrodriguez''" "''Field trip''" "''2099-12-31''" sample_ObjectId
        "''650000000000000000000003''" "''2026-11-04''"]
  from w t e sample_fresh
  have c: "\<exists>f db'. create_announcement sample_str ''2026-11-04T10:00:00'' ''650000000000000000000009''
               sample_db ''mrodriguez'' ''Field trip'' ''2099-12-31'' (Some [])
               = (Inr (str_id sample_str (''650000000000000000000009'', f)), db') \<and>
             find_one ''650000000000000000000009'' (announcements_collection db')
               = Some (''650000000000000000000009'', f) \<and>
             f ''start_date'' = None"
    by blast
  from w t e sample_ObjectId_a3 sample_find_a3
  have u: "\<exists>f db'. update_announcement sample_ObjectId sample_str ''2026-11-04T10:00:00'' sample_db
               ''650000000000000000000003'' ''mrodriguez'' ''Field trip'' ''2099-12-31'' (Some [])
               = (Inr (str_id sample_str (''650000000000000000000003'', f)), db') \<and>
             find_one ''650000000000000000000003'' (announcements_collection db')
               = Some (''650000000000000000000003'', f) \<and>
             f ''start_date'' = None"
    by blast
  from w m s x le
  have a: "str_id sample_str sample_a4 \<in>
             set (get_active_announcements sample_str ''2026-11-04'' sample_db)"
    by blast
  from t e sample_fresh c sample_ObjectId_a3 sample_find_a3 u m s x le a
  show ?thesis by (intro conjI)
qed

text \<open>
  \<^bold>\<open>C10.\<close> In update and delete, an unknown username gives \<open>Unauthorized\<close> whatever the
  other arguments are; a known username with a malformed identifier gives \<open>InvalidId\<close>
  whatever the dates are; an error about a date is only reported for a known username
  and a well-formed identifier; and whenever one of these errors is returned the database
  is unchanged.
\<close>

theorem error_precedence:
  "(find_one username (teachers_collection db) = None \<longrightarrow>
      update_announcement ObjectId str now db announcement_id username message expiration_date start_date
        = (Inl Unauthorized, db) \<and>
      delete_announcement ObjectId db announcement_id username = (Inl Unauthorized, db)) \<and>
   (find_one username (teachers_collection db) \<noteq> None \<and> ObjectId announcement_id = None \<longrightarrow>
      update_announcement ObjectId str now db announcement_id username message expiration_date start_date
        = (Inl InvalidId, db) \<and>
      delete_announcement ObjectId db announcement_id username = (Inl InvalidId, db)) \<and>
   (fst (update_announcement ObjectId str now db announcement_id username message expiration_date
           start_date) \<in> {Inl (InvalidDate ''expiration_date''), Inl (InvalidDate ''start_date'')} \<longrightarrow>
      find_one username (teachers_collection db) \<noteq> None \<and> ObjectId announcement_id \<noteq> None) \<and>
   (fst (update_announcement ObjectId str now db announcement_id username message expiration_date
           start_date) \<in> {Inl Unauthorized, Inl InvalidId,
                           Inl (InvalidDate ''expiration_date''), Inl (InvalidDate ''start_date'')} \<longrightarrow>
      snd (update_announcement ObjectId str now db announcement_id username message expiration_date
             start_date) = db) \<and>
   (fst (delete_announcement ObjectId db announcement_id username) \<in> {Inl Unauthorized, Inl InvalidId} \<longrightarrow>
      snd (delete_announcement ObjectId db announcement_id username) = db)"
proof -
  let ?upd = "update_announcement ObjectId str now db announcement_id username message
                expiration_date start_date"
  let ?del = "delete_announcement ObjectId db announcement_id username"
  let ?early = "{Inl Unauthorized, Inl InvalidId,
                 Inl (InvalidDate ''expiration_date''), Inl (InvalidDate ''start_date'')}
                :: (error + json) set"
  have p1: "find_one username (teachers_collection db) = None \<longrightarrow>
      ?upd = (Inl Unauthorized, db) \<and> ?del = (Inl Unauthorized, db)"
    by (simp add: update_announcement_unauthorized delete_announcement_unauthorized)
  have p2: "find_one username (teachers_collection db) \<noteq> None \<and> ObjectId announcement_id = None \<longrightarrow>
      ?upd = (Inl InvalidId, db) \<and> ?del = (Inl InvalidId, db)"
    by (auto simp: update_announcement_invalid_id delete_announcement_invalid_id)
  have p3: "fst ?upd \<in> {Inl (InvalidDate ''expiration_date''), Inl (InvalidDate ''start_date'')} \<longrightarrow>
      find_one username (teachers_collection db) \<noteq> None \<and> ObjectId announcement_id \<noteq> None"
  proof (cases "find_one username (teachers_collection db)")
    case None
    then show ?thesis by (simp add: update_announcement_unauthorized error_distinct)
  next
    case t: (Some teacher)
    show ?thesis
    proof (cases "ObjectId announcement_id")
      case None
      with t show ?thesis by (simp add: update_announcement_invalid_id error_distinct)
    next
      case (Some obj_id)
      with t show ?thesis by simp
    qed
  qed
  have p4: "fst ?upd \<in> ?early \<longrightarrow> snd ?upd = db"
  proof (cases "find_one username (teachers_collection db)")
    case None
    then show ?thesis by (simp add: update_announcement_unauthorized)
  next
    case t: (Some teacher)
    show ?thesis
    proof (cases "ObjectId announcement_id")
      case None
      with t show ?thesis by (simp add: update_announcement_invalid_id)
    next
      case o: (Some obj_id)
      show ?thesis
      proof (cases "strptime expiration_date = None")
        case True
        with t o show ?thesis by (simp add: update_announcement_invalid_expiration)
      next
        case e: False
        show ?thesis
        proof (cases "\<not> truthy start_date \<or> (\<exists>s. start_date = Some s \<and> strptime s \<noteq> None)")
          case True
          from update_announcement_validated
            [where ObjectId = ObjectId and announcement_id = announcement_id, OF t o e True,
             of str now message]
          show ?thesis by (auto simp: error_distinct)
        next
          case False
          then have nt: "truthy start_date"
            and ns: "\<not> (\<exists>s. start_date = Some s \<and> strptime s \<noteq> None)" by blast+
          from nt obtain s where s: "start_date = Some s" "s \<noteq> []"
            by (cases start_date) simp_all
          with ns have "strptime s = None" by blast
          with t o e s show ?thesis by (simp add: update_announcement_invalid_start)
        qed
      qed
    qed
  qed
  have p5: "fst ?del \<in> {Inl Unauthorized, Inl InvalidId} \<longrightarrow> snd ?del = db"
  proof (cases "find_one username (teachers_collection db)")
    case None
    then show ?thesis by (simp add: delete_announcement_unauthorized)
  next
    case t: (Some teacher)
    show ?thesis
    proof (cases "ObjectId announcement_id")
      case None
      with t show ?thesis by (simp add: delete_announcement_invalid_id)
    next
      case o: (Some obj_id)
      from delete_announcement_valid_id
        [where ObjectId = ObjectId and announcement_id = announcement_id, OF t o]
      show ?thesis by (auto simp: error_distinct)
    qed
  qed
  from p1 p2 p3 p4 p5 show ?thesis by (intro conjI)
qed

theorem error_precedence_witness:
  "find_one ''stranger'' (teachers_collection sample_db) = None \<and>
   update_announcement sample_ObjectId sample_str ''2026-11-04T10:00:00'' sample_db
     ''not-an-id'' ''stranger'' ''Hello'' ''13/2023'' None = (Inl Unauthorized, sample_db) \<and>
   delete_announcement sample_ObjectId sample_db ''not-an-id'' ''stranger''
     = (Inl Unauthorized, sample_db) \<and>
   find_one ''mrodriguez'' (teachers_collection sample_db) \<noteq> None \<and>
   sample_ObjectId ''not-an-id'' = None \<and>
   strptime ''13/2023'' = None \<and>
   update_announcement sample_ObjectId sample_str ''2026-11-04T10:00:00'' sample_db
     ''not-an-id'' ''mrodriguez'' ''Hello'' ''13/2023'' None = (Inl InvalidId, sample_db) \<and>
   delete_announcement sample_ObjectId sample_db ''not-an-id'' ''mrodriguez''
     = (Inl InvalidId, sample_db)"
proof -
  have t: "find_one ''mrodriguez'' (teachers_collection sample_db) \<noteq> None"
    by (simp add: sample_teacher)
  from error_precedence
    [of "''stranger''" sample_db sample_ObjectId sample_str "''2026-11-04T10:00:00''"
        "''not-an-id''" "''Hello''" "''13/2023''" None]
    sample_stranger
  have a: "update_announcement sample_ObjectId sample_str ''2026-11-04T10:00:00'' sample_db
     ''not-an-id'' ''stranger'' ''Hello'' ''13/2023'' None = (Inl Unauthorized, sample_db) \<and>
   delete_announcement sample_ObjectId sample_db ''not-an-id'' ''stranger''
     = (Inl Unauthorized, sample_db)"
    by blast
  from error_precedence
    [of "''mrodriguez''" sample_db sample_ObjectId sample_str "''2026-11-04T10:00:00''"
        "''not-an-id''" "''Hello''" "''13/2023''" None]
    t sample_ObjectId_malformed
  have b: "update_announcement sample_ObjectId sample_str ''2026-11-04T10:00:00'' sample_db
     ''not-an-id'' ''mrodriguez'' ''Hello'' ''13/2023'' None = (Inl InvalidId, sample_db) \<and>
   delete_announcement sample_ObjectId sample_db ''not-an-id'' ''mrodriguez''
     = (Inl InvalidId, sample_db)"
    by blast
  from sample_stranger a t sample_ObjectId_malformed strptime_slash b
  show ?thesis by blast
qed

end
